theory Spec2Isabelle
  imports Complex_Main
begin

section \<open>JavaScript numbers\<close>

text \<open>
  Health factors, thresholds and the timestamp member of a stored record are JavaScript
  numbers. A number is NaN, an infinity, or a finite value; every finite double is a
  rational, so finite values are kept as rationals. Comparison of doubles is comparison
  of the values they denote, with every comparison against NaN false; that is what
  \<open>js_lt\<close> and \<open>js_le\<close> compute. Subtraction is exact here; the doubles the
  worker subtracts are millisecond timestamps, integers far below \<open>2^53\<close>, on which
  double subtraction is exact too.
\<close>

datatype jsnum = NaN | NegInf | Fin rat | PosInf

fun js_lt :: "jsnum \<Rightarrow> jsnum \<Rightarrow> bool" where
  "js_lt NaN _ = False"
| "js_lt _ NaN = False"
| "js_lt (Fin x) (Fin y) = (x < y)"
| "js_lt NegInf NegInf = False"
| "js_lt NegInf _ = True"
| "js_lt _ NegInf = False"
| "js_lt PosInf _ = False"
| "js_lt (Fin _) PosInf = True"

fun js_le :: "jsnum \<Rightarrow> jsnum \<Rightarrow> bool" where
  "js_le NaN _ = False"
| "js_le _ NaN = False"
| "js_le a b = (\<not> js_lt b a)"

definition js_gt :: "jsnum \<Rightarrow> jsnum \<Rightarrow> bool" where
  "js_gt a b = js_lt b a"

definition js_ge :: "jsnum \<Rightarrow> jsnum \<Rightarrow> bool" where
  "js_ge a b = js_le b a"

fun js_sub :: "jsnum \<Rightarrow> jsnum \<Rightarrow> jsnum" where
  "js_sub NaN _ = NaN"
| "js_sub _ NaN = NaN"
| "js_sub (Fin x) (Fin y) = Fin (x - y)"
| "js_sub PosInf PosInf = NaN"
| "js_sub NegInf NegInf = NaN"
| "js_sub PosInf _ = PosInf"
| "js_sub NegInf _ = NegInf"
| "js_sub (Fin _) PosInf = NegInf"
| "js_sub (Fin _) NegInf = PosInf"

text \<open>A millisecond reading of \<open>Date.now()\<close> as a JavaScript number.\<close>

definition millis :: "int \<Rightarrow> jsnum" where
  "millis t = Fin (of_int t)"

section \<open>Risk classifier (\<open>healthFactor.ts\<close>)\<close>

datatype RiskLevel = Safe | AtWarning | AtCritical

text \<open>
  \<open>getRiskLevel(healthFactor, warnThreshold, criticalThreshold)\<close>: the critical
  comparison first, then the warning comparison, else safe.
\<close>

definition getRiskLevel :: "jsnum \<Rightarrow> jsnum \<Rightarrow> jsnum \<Rightarrow> RiskLevel" where
  "getRiskLevel healthFactor warnThreshold criticalThreshold =
     (if js_lt healthFactor criticalThreshold then AtCritical
      else if js_lt healthFactor warnThreshold then AtWarning
      else Safe)"

section \<open>Outcomes of fallible calls\<close>

text \<open>
  A call either throws (an \<open>async\<close> function rejects) or returns a value. Every
  \<open>try\<close> block of the source is a function into \<open>outcome\<close>, and the
  \<open>catch\<close> that follows it is the case distinction on the result.
\<close>

datatype 'a outcome = Throws | Returns 'a

section \<open>The persistent key-value store\<close>

text \<open>
  A bound \<open>KVNamespace\<close>: the text stored under each key with the time (in epoch
  milliseconds) at which the store drops it, if any, and for each key whether a read or
  a write of it currently rejects (the store is a network service). The
  \<open>metadata\<close> option of \<open>put\<close> is left out: the worker never reads metadata.
\<close>

record KVNamespace =
  entries :: "string \<rightharpoonup> (string \<times> int option)"
  get_rejects :: "string \<Rightarrow> bool"
  put_rejects :: "string \<Rightarrow> bool"

definition kv_get :: "KVNamespace \<Rightarrow> int \<Rightarrow> string \<Rightarrow> string option outcome" where
  "kv_get kv now key =
     (if get_rejects kv key then Throws
      else (case entries kv key of
              None \<Rightarrow> Returns None
            | Some (text, expiry) \<Rightarrow>
                (case expiry of
                   None \<Rightarrow> Returns (Some text)
                 | Some e \<Rightarrow> if e \<le> now then Returns None else Returns (Some text))))"

text \<open>\<open>put(key, value, {expirationTtl})\<close>, the time to live in seconds.\<close>

definition kv_put ::
  "KVNamespace \<Rightarrow> int \<Rightarrow> string \<Rightarrow> string \<Rightarrow> int option \<Rightarrow> KVNamespace outcome" where
  "kv_put kv now key text expirationTtl =
     (if put_rejects kv key then Throws
      else Returns (kv\<lparr>entries :=
             (entries kv)(key \<mapsto> (text, map_option (\<lambda>s. now + s * 1000) expirationTtl))\<rparr>))"

section \<open>Alert levels and the stored alert record\<close>

datatype AlertLevel = Info | Warning | Critical | Error

fun level_text :: "AlertLevel \<Rightarrow> string" where
  "level_text Info = ''info''"
| "level_text Warning = ''warning''"
| "level_text Critical = ''critical''"
| "level_text Error = ''error''"

record AlertRecord =
  level :: string
  timestamp :: int
  assetSymbol :: string

text \<open>
  \<open>JSON.parse\<close> and \<open>JSON.stringify\<close> are built-ins of the runtime and are
  parameters of the model. What \<open>shouldSendAlert\<close> observes of a parsed text is
  whether parsing threw, whether the value is \<open>null\<close> (reading a member of it
  throws a TypeError), the \<open>level\<close> member when it is a string, and the number that
  \<open>Date.now() - lastAlert.timestamp\<close> converts the \<open>timestamp\<close> member to (NaN
  when the member is missing).
\<close>

datatype parsed = SyntaxError | JsonNull
  | JsonValue (level_member: "string option") (timestamp_member: jsnum)

record js_runtime =
  JSON_parse :: "string \<Rightarrow> parsed"
  JSON_stringify :: "AlertRecord \<Rightarrow> string"

text \<open>
  The built-ins round-trip a record when the text written for it is not empty and parses
  back to its level and timestamp.
\<close>

definition round_trips :: "js_runtime \<Rightarrow> AlertRecord \<Rightarrow> bool" where
  "round_trips rt r =
     (JSON_stringify rt r \<noteq> []
      \<and> JSON_parse rt (JSON_stringify rt r) = JsonValue (Some (level r)) (millis (timestamp r)))"

section \<open>Alert Manager (\<open>alertManager.ts\<close>)\<close>

definition COOLDOWN_MS :: int where
  "COOLDOWN_MS = 10 * 60 * 1000"

definition KV_TTL_SECONDS :: int where
  "KV_TTL_SECONDS = 3600"

definition alert_key :: "string \<Rightarrow> string" where
  "alert_key loanId = ''alert:'' @ loanId"

text \<open>The \<open>try\<close> block of \<open>shouldSendAlert\<close>; \<open>now\<close> is what \<open>Date.now()\<close> reads.\<close>

definition shouldSendAlert_try ::
  "js_runtime \<Rightarrow> KVNamespace \<Rightarrow> int \<Rightarrow> string \<Rightarrow> AlertLevel \<Rightarrow> bool outcome" where
  "shouldSendAlert_try rt kv now loanId currentLevel =
     (case kv_get kv now (alert_key loanId) of
        Throws \<Rightarrow> Throws
      | Returns None \<Rightarrow> Returns True
      | Returns (Some storedData) \<Rightarrow>
          if storedData = [] then Returns True
          else (case JSON_parse rt storedData of
                  SyntaxError \<Rightarrow> Throws
                | JsonNull \<Rightarrow> Throws
                | JsonValue lastLevel lastTimestamp \<Rightarrow>
                    (let timeSinceLastAlert = js_sub (millis now) lastTimestamp in
                     if currentLevel = Critical \<and> lastLevel = Some ''warning'' then Returns True
                     else if js_ge timeSinceLastAlert (millis COOLDOWN_MS) then Returns True
                     else Returns False)))"

definition shouldSendAlert ::
  "js_runtime \<Rightarrow> KVNamespace option \<Rightarrow> int \<Rightarrow> string \<Rightarrow> AlertLevel \<Rightarrow> string \<Rightarrow> bool outcome"
  where
  "shouldSendAlert rt kv now loanId currentLevel unused_assetSymbol =
     (case kv of
        None \<Rightarrow> Returns True
      | Some store \<Rightarrow>
          if currentLevel \<noteq> Warning \<and> currentLevel \<noteq> Critical then Returns True
          else (case shouldSendAlert_try rt store now loanId currentLevel of
                  Throws \<Rightarrow> Returns True
                | Returns answer \<Rightarrow> Returns answer))"

text \<open>
  The \<open>try\<close> block of \<open>recordAlert\<close>. The result of \<open>recordAlert\<close> is the
  binding after the call.
\<close>

definition recordAlert_try ::
  "js_runtime \<Rightarrow> KVNamespace \<Rightarrow> int \<Rightarrow> string \<Rightarrow> AlertLevel \<Rightarrow> string \<Rightarrow> KVNamespace outcome"
  where
  "recordAlert_try rt kv now loanId lvl symbol =
     kv_put kv now (alert_key loanId)
       (JSON_stringify rt \<lparr>level = level_text lvl, timestamp = now, assetSymbol = symbol\<rparr>)
       (Some KV_TTL_SECONDS)"

definition recordAlert ::
  "js_runtime \<Rightarrow> KVNamespace option \<Rightarrow> int \<Rightarrow> string \<Rightarrow> AlertLevel \<Rightarrow> string
     \<Rightarrow> KVNamespace option outcome" where
  "recordAlert rt kv now loanId lvl symbol =
     (case kv of
        None \<Rightarrow> Returns None
      | Some store \<Rightarrow>
          if lvl \<noteq> Warning \<and> lvl \<noteq> Critical then Returns (Some store)
          else (case recordAlert_try rt store now loanId lvl symbol of
                  Throws \<Rightarrow> Returns (Some store)
                | Returns store' \<Rightarrow> Returns (Some store')))"

section \<open>Timestamps as text\<close>

text \<open>
  The two throttle timestamps are stored as the text \<open>currentTime.toString()\<close> and read
  back with \<open>parseInt\<close>. A \<open>char\<close> stands for a UTF-16 code unit below 256.
  \<open>parseInt\<close> without a radix skips leading white space, takes a sign, takes a
  \<open>0x\<close> prefix as radix 16, and reads the longest run of digits; no digit gives NaN.
  The value is kept exact (a double rounds it above \<open>2^53\<close>).
\<close>

definition is_whitespace :: "char \<Rightarrow> bool" where
  "is_whitespace c = (of_char c \<in> {9, 10, 11, 12, 13, 32, 160 :: nat})"

definition digit_of :: "char \<Rightarrow> nat option" where
  "digit_of c =
     (let n = of_char c :: nat in
      if 48 \<le> n \<and> n \<le> 57 then Some (n - 48)
      else if 97 \<le> n \<and> n \<le> 122 then Some (n - 87)
      else if 65 \<le> n \<and> n \<le> 90 then Some (n - 55)
      else None)"

definition is_digit :: "nat \<Rightarrow> char \<Rightarrow> bool" where
  "is_digit R c = (case digit_of c of None \<Rightarrow> False | Some d \<Rightarrow> d < R)"

definition digit_value :: "char \<Rightarrow> nat" where
  "digit_value c = (case digit_of c of None \<Rightarrow> 0 | Some d \<Rightarrow> d)"

definition strip_sign :: "string \<Rightarrow> int \<times> string" where
  "strip_sign S =
     (case S of
        [] \<Rightarrow> (1, S)
      | c # rest \<Rightarrow>
          if c = CHR ''-'' then (- 1, rest) else if c = CHR ''+'' then (1, rest) else (1, S))"

definition strip_prefix :: "string \<Rightarrow> nat \<times> string" where
  "strip_prefix S =
     (case S of
        c # x # rest \<Rightarrow>
          if c = CHR ''0'' \<and> (x = CHR ''x'' \<or> x = CHR ''X'') then (16, rest) else (10, S)
      | _ \<Rightarrow> (10, S))"

definition parseInt :: "string \<Rightarrow> jsnum" where
  "parseInt inputString =
     (let (sign, S) = strip_sign (dropWhile is_whitespace inputString);
          (R, S') = strip_prefix S;
          Z = takeWhile (is_digit R) S'
      in if Z = [] then NaN
         else Fin (of_int (sign * int (foldl (\<lambda>acc c. acc * R + digit_value c) 0 Z))))"

definition digit_char :: "nat \<Rightarrow> char" where
  "digit_char d = char_of (48 + d)"

fun digits :: "nat \<Rightarrow> string" where
  "digits n = (if n < 10 then [digit_char n] else digits (n div 10) @ [digit_char (n mod 10)])"

declare digits.simps [simp del]

text \<open>\<open>toString\<close> of an integer (below \<open>10^21\<close> in size, where JavaScript prints all digits).\<close>

definition Number_toString :: "int \<Rightarrow> string" where
  "Number_toString n = (if n < 0 then CHR ''-'' # digits (nat (- n)) else digits (nat n))"

section \<open>Configuration and loans\<close>

record WorkerEnv =
  HF_WARN :: jsnum
  HF_CRIT :: jsnum
  TELEGRAM_TOKEN :: string
  CHATID :: string
  NOTION_PRICES_DB_ID :: "string option"
  NOTION_API_TOKEN :: "string option"

record LoanInfo =
  loan_id :: string
  loan_healthFactor :: jsnum
  loan_assetSymbol :: string

text \<open>An optional string is truthy when it is present and not empty.\<close>

definition truthy :: "string option \<Rightarrow> bool" where
  "truthy x = (case x of None \<Rightarrow> False | Some text \<Rightarrow> text \<noteq> [])"

section \<open>Messaging transport (\<open>alerts.ts\<close>)\<close>

text \<open>
  What one request to the Telegram API comes to: success, status 429, or anything else
  (another status, or \<open>fetch\<close> itself throwing). The loop of \<open>sendAlert\<close> makes one
  request per round and every round that does not return adds one to \<open>retries\<close>, so
  the request of a round is numbered by \<open>retries\<close>.
\<close>

datatype response = Ok | TooManyRequests | Failed

definition MAX_RETRIES :: nat where
  "MAX_RETRIES = 3"

function sendAlert_loop :: "(nat \<Rightarrow> response) \<Rightarrow> nat \<Rightarrow> bool" where
  "sendAlert_loop fetch retries =
     (if retries \<le> MAX_RETRIES then
        (case fetch retries of
           Ok \<Rightarrow> True
         | TooManyRequests \<Rightarrow> sendAlert_loop fetch (retries + 1)
         | Failed \<Rightarrow>
             if retries < MAX_RETRIES then sendAlert_loop fetch (retries + 1) else False)
      else False)"
  by pat_completeness auto
termination
  by (relation "measure (\<lambda>(fetch, retries). MAX_RETRIES + 1 - retries)") auto

declare sendAlert_loop.simps [simp del]

definition sendAlert :: "AlertLevel \<Rightarrow> WorkerEnv \<Rightarrow> (nat \<Rightarrow> response) \<Rightarrow> bool outcome" where
  "sendAlert lvl config fetch =
     (if TELEGRAM_TOKEN config = [] \<or> CHATID config = [] then Returns False
      else Returns (sendAlert_loop fetch 0))"

section \<open>The monitoring cycle (\<open>index.ts\<close>)\<close>

text \<open>
  The collaborators of one run of \<open>scheduled\<close>: what \<open>createEnv\<close> and
  \<open>fetchLoansSnapshot\<close> come to; for the loan at each position of the snapshot, the
  time at which the cooldown is consulted, the Telegram responses to its alert and the time
  at which the alert is recorded; the time of the price step, the two queries of the
  Notion database, the prices the data source has for a list of symbols (as the symbols
  priced), whether writing the row of a symbol succeeds; the time of the failure handler
  and the Telegram responses to the error alert.
\<close>

record notion_row =
  page_id :: string
  plain_text :: "string option"

record collaborators =
  runtime :: js_runtime
  createEnv_result :: "WorkerEnv outcome"
  fetchLoansSnapshot_result :: "LoanInfo list outcome"
  check_time :: "nat \<Rightarrow> int"
  telegram :: "nat \<Rightarrow> nat \<Rightarrow> response"
  record_time :: "nat \<Rightarrow> int"
  price_time :: int
  symbols_query :: "notion_row list outcome"
  getPrices_result :: "string list \<Rightarrow> string list outcome"
  rows_query :: "notion_row list outcome"
  notion_write :: "string \<Rightarrow> bool"
  error_time :: int
  error_telegram :: "nat \<Rightarrow> response"

text \<open>
  The state a run works on: the store binding \<open>env.HF_MONITOR_STATE\<close> with its
  contents, the calls made to collaborators so far, and the two lists the loop fills.
  An alert's message is a function of its level and loan and is not kept.
\<close>

datatype call =
    SendAlert AlertLevel "LoanInfo option"
  | LoansQuery
  | NotionQuery
  | PricesQuery "string list"
  | NotionWrite "string option" string

record cycle_state =
  HF_MONITOR_STATE :: "KVNamespace option"
  calls :: "call list"
  hf_results :: "LoanInfo list"
  alertsSent :: "(AlertLevel \<times> LoanInfo) list"

datatype completion = Normal | Abrupt

text \<open>
  The body of each of the two alert branches of the loop (lines 99 to 105 with level
  critical, lines 112 to 118 with level warning): consult the cooldown, send, record.
  The value \<open>sendAlert\<close> returns is not used.
\<close>

definition alert_branch ::
  "collaborators \<Rightarrow> WorkerEnv \<Rightarrow> nat \<Rightarrow> LoanInfo \<Rightarrow> AlertLevel \<Rightarrow> cycle_state
     \<Rightarrow> completion \<times> cycle_state" where
  "alert_branch co validatedEnv i loan lvl s =
     (case shouldSendAlert (runtime co) (HF_MONITOR_STATE s) (check_time co i)
             (loan_id loan) lvl (loan_assetSymbol loan) of
        Throws \<Rightarrow> (Abrupt, s)
      | Returns False \<Rightarrow> (Normal, s)
      | Returns True \<Rightarrow>
          (let s1 = s\<lparr>calls := calls s @ [SendAlert lvl (Some loan)]\<rparr> in
           case sendAlert lvl validatedEnv (telegram co i) of
             Throws \<Rightarrow> (Abrupt, s1)
           | Returns delivered \<Rightarrow>
               (case recordAlert (runtime co) (HF_MONITOR_STATE s1) (record_time co i)
                       (loan_id loan) lvl (loan_assetSymbol loan) of
                  Throws \<Rightarrow> (Abrupt, s1)
                | Returns store' \<Rightarrow>
                    (Normal, s1\<lparr>HF_MONITOR_STATE := store',
                                 alertsSent := alertsSent s1 @ [(lvl, loan)]\<rparr>))))"

definition process_loan ::
  "collaborators \<Rightarrow> WorkerEnv \<Rightarrow> nat \<Rightarrow> LoanInfo \<Rightarrow> cycle_state \<Rightarrow> completion \<times> cycle_state"
  where
  "process_loan co validatedEnv i loan s =
     (let healthFactor = loan_healthFactor loan;
          s1 = s\<lparr>hf_results := hf_results s @ [loan]\<rparr>
      in if js_lt healthFactor (HF_CRIT validatedEnv)
           then alert_branch co validatedEnv i loan Critical s1
         else if js_lt healthFactor (HF_WARN validatedEnv)
           then alert_branch co validatedEnv i loan Warning s1
         else (Normal, s1))"

fun process_loans ::
  "collaborators \<Rightarrow> WorkerEnv \<Rightarrow> nat \<Rightarrow> LoanInfo list \<Rightarrow> cycle_state
     \<Rightarrow> completion \<times> cycle_state" where
  "process_loans co validatedEnv i [] s = (Normal, s)"
| "process_loans co validatedEnv i (loan # rest) s =
     (case process_loan co validatedEnv i loan s of
        (Abrupt, s') \<Rightarrow> (Abrupt, s')
      | (Normal, s') \<Rightarrow> process_loans co validatedEnv (Suc i) rest s')"

subsection \<open>The price mirror\<close>

record UpdateResult =
  updated :: nat
  errors :: "string list"

text \<open>\<open>NotionAdapter.ensureClient\<close>.\<close>

definition ensureClient :: "WorkerEnv \<Rightarrow> bool outcome" where
  "ensureClient config =
     (if \<not> truthy (NOTION_API_TOKEN config) then Returns False
      else if \<not> truthy (NOTION_PRICES_DB_ID config) then Throws
      else Returns True)"

definition row_symbol :: "notion_row \<Rightarrow> string option" where
  "row_symbol row = (if truthy (plain_text row) then plain_text row else None)"

definition getAssetSymbols ::
  "collaborators \<Rightarrow> WorkerEnv \<Rightarrow> cycle_state \<Rightarrow> string list outcome \<times> cycle_state" where
  "getAssetSymbols co config s =
     (case ensureClient config of
        Throws \<Rightarrow> (Throws, s)
      | Returns False \<Rightarrow> (Returns [], s)
      | Returns True \<Rightarrow>
          (let s1 = s\<lparr>calls := calls s @ [NotionQuery]\<rparr> in
           case symbols_query co of
             Throws \<Rightarrow> (Throws, s1)
           | Returns rows \<Rightarrow> (Returns (List.map_filter row_symbol rows), s1)))"

text \<open>\<open>LiqwidPriceProvider.getPrices\<close>, as the symbols of the prices it returns.\<close>

definition getPrices ::
  "collaborators \<Rightarrow> string list \<Rightarrow> cycle_state \<Rightarrow> string list outcome \<times> cycle_state" where
  "getPrices co symbols s =
     (if symbols = [] then (Returns [], s)
      else (getPrices_result co symbols, s\<lparr>calls := calls s @ [PricesQuery symbols]\<rparr>))"

text \<open>
  One round of the loop of \<open>NotionClient.updatePriceDatabase\<close>: the row of the symbol
  is updated or created; a failure is caught and added to \<open>errors\<close>.
\<close>

definition push_price ::
  "collaborators \<Rightarrow> notion_row list \<Rightarrow> UpdateResult \<times> cycle_state \<Rightarrow> string
     \<Rightarrow> UpdateResult \<times> cycle_state" where
  "push_price co existingRows acc symbol =
     (let (results, s) = acc;
          existingRow = find (\<lambda>row. plain_text row = Some symbol) existingRows;
          s1 = s\<lparr>calls := calls s @ [NotionWrite (map_option page_id existingRow) symbol]\<rparr>
      in if notion_write co symbol then (results\<lparr>updated := updated results + 1\<rparr>, s1)
         else (results\<lparr>errors := errors results @ [symbol]\<rparr>, s1))"

definition updatePriceDatabase ::
  "collaborators \<Rightarrow> WorkerEnv \<Rightarrow> string list \<Rightarrow> cycle_state \<Rightarrow> UpdateResult outcome \<times> cycle_state"
  where
  "updatePriceDatabase co config prices s =
     (case ensureClient config of
        Throws \<Rightarrow> (Throws, s)
      | Returns False \<Rightarrow> (Returns \<lparr>updated = 0, errors = [''all'']\<rparr>, s)
      | Returns True \<Rightarrow>
          (let s1 = s\<lparr>calls := calls s @ [NotionQuery]\<rparr> in
           case rows_query co of
             Throws \<Rightarrow> (Throws, s1)
           | Returns existingRows \<Rightarrow>
               (let (results, s2) =
                      foldl (push_price co existingRows) (\<lparr>updated = 0, errors = []\<rparr>, s1) prices
                in (Returns results, s2))))"

definition PRICE_UPDATE_INTERVAL_MS :: int where
  "PRICE_UPDATE_INTERVAL_MS = 60 * 60 * 1000"

text \<open>\<open>env.HF_MONITOR_STATE ? await env.HF_MONITOR_STATE.get(key) : null\<close>.\<close>

definition read_timestamp :: "KVNamespace option \<Rightarrow> int \<Rightarrow> string \<Rightarrow> string option outcome" where
  "read_timestamp kv now key =
     (case kv of None \<Rightarrow> Returns None | Some store \<Rightarrow> kv_get store now key)"

text \<open>
  \<open>!lastPriceUpdateTime || (currentTime - parseInt(lastPriceUpdateTime)) > PRICE_UPDATE_INTERVAL_MS\<close>.
\<close>

definition price_update_due :: "string option \<Rightarrow> int \<Rightarrow> bool" where
  "price_update_due lastPriceUpdateTime currentTime =
     (case lastPriceUpdateTime of
        None \<Rightarrow> True
      | Some text \<Rightarrow>
          text = [] \<or> js_gt (js_sub (millis currentTime) (parseInt text))
                         (millis PRICE_UPDATE_INTERVAL_MS))"

text \<open>
  The \<open>try\<close> block of step 3. (The source first copies \<open>env.NOTION_API_TOKEN\<close> into
  the configuration when the configuration has none; the configuration was validated from
  the same \<open>env\<close>, so the copy changes nothing.)
\<close>

definition update_prices_try ::
  "collaborators \<Rightarrow> WorkerEnv \<Rightarrow> cycle_state \<Rightarrow> completion \<times> cycle_state" where
  "update_prices_try co appConfig s =
     (case read_timestamp (HF_MONITOR_STATE s) (price_time co) ''lastPriceUpdateTime'' of
        Throws \<Rightarrow> (Abrupt, s)
      | Returns lastPriceUpdateTime \<Rightarrow>
          (let currentTime = price_time co in
           if price_update_due lastPriceUpdateTime currentTime then
             (case getAssetSymbols co appConfig s of
                (Throws, s1) \<Rightarrow> (Abrupt, s1)
              | (Returns assetSymbols, s1) \<Rightarrow>
                  if assetSymbols \<noteq> [] then
                    (let liqwidSymbols =
                           map (\<lambda>symbol. if symbol = ''ADA'' then ''Ada'' else symbol) assetSymbols
                     in case getPrices co liqwidSymbols s1 of
                          (Throws, s2) \<Rightarrow> (Abrupt, s2)
                        | (Returns prices, s2) \<Rightarrow>
                            (case updatePriceDatabase co appConfig prices s2 of
                               (Throws, s3) \<Rightarrow> (Abrupt, s3)
                             | (Returns result, s3) \<Rightarrow>
                                 (case HF_MONITOR_STATE s3 of
                                    None \<Rightarrow> (Normal, s3)
                                  | Some store \<Rightarrow>
                                      (case kv_put store currentTime ''lastPriceUpdateTime''
                                              (Number_toString currentTime) None of
                                         Throws \<Rightarrow> (Abrupt, s3)
                                       | Returns store' \<Rightarrow>
                                           (Normal, s3\<lparr>HF_MONITOR_STATE := Some store'\<rparr>)))))
                  else (Normal, s1))
           else (Normal, s)))"

text \<open>Step 3: the \<open>catch\<close> of the block logs and goes on.\<close>

definition update_prices :: "collaborators \<Rightarrow> WorkerEnv \<Rightarrow> cycle_state \<Rightarrow> cycle_state" where
  "update_prices co validatedEnv s =
     (if truthy (NOTION_PRICES_DB_ID validatedEnv) then snd (update_prices_try co validatedEnv s)
      else s)"

subsection \<open>The run and its failure handler\<close>

definition scheduled_try :: "collaborators \<Rightarrow> cycle_state \<Rightarrow> completion \<times> cycle_state" where
  "scheduled_try co s =
     (case createEnv_result co of
        Throws \<Rightarrow> (Abrupt, s)
      | Returns validatedEnv \<Rightarrow>
          (let s1 = s\<lparr>calls := calls s @ [LoansQuery]\<rparr> in
           case fetchLoansSnapshot_result co of
             Throws \<Rightarrow> (Abrupt, s1)
           | Returns loansSnapshot \<Rightarrow>
               (case process_loans co validatedEnv 0 loansSnapshot
                       (s1\<lparr>hf_results := [], alertsSent := []\<rparr>) of
                  (Abrupt, s2) \<Rightarrow> (Abrupt, s2)
                | (Normal, s2) \<Rightarrow> (Normal, update_prices co validatedEnv s2))))"

definition ERROR_ALERT_COOLDOWN_MS :: int where
  "ERROR_ALERT_COOLDOWN_MS = 12 * 60 * 60 * 1000"

text \<open>
  \<open>!lastErrorTime || (currentTime - parseInt(lastErrorTime)) > ERROR_ALERT_COOLDOWN_MS\<close>.
\<close>

definition error_alert_due :: "string option \<Rightarrow> int \<Rightarrow> bool" where
  "error_alert_due lastErrorTime currentTime =
     (case lastErrorTime of
        None \<Rightarrow> True
      | Some text \<Rightarrow>
          text = [] \<or> js_gt (js_sub (millis currentTime) (parseInt text))
                         (millis ERROR_ALERT_COOLDOWN_MS))"

text \<open>The \<open>try\<close> block inside the outer \<open>catch\<close>.\<close>

definition handle_failure_try :: "collaborators \<Rightarrow> cycle_state \<Rightarrow> completion \<times> cycle_state" where
  "handle_failure_try co s =
     (case read_timestamp (HF_MONITOR_STATE s) (error_time co) ''lastErrorAlertTime'' of
        Throws \<Rightarrow> (Abrupt, s)
      | Returns lastErrorTime \<Rightarrow>
          (let currentTime = error_time co in
           if error_alert_due lastErrorTime currentTime then
             (case createEnv_result co of
                Throws \<Rightarrow> (Abrupt, s)
              | Returns validatedErrorEnv \<Rightarrow>
                  (let s1 = s\<lparr>calls := calls s @ [SendAlert Error None]\<rparr> in
                   case sendAlert Error validatedErrorEnv (error_telegram co) of
                     Throws \<Rightarrow> (Abrupt, s1)
                   | Returns delivered \<Rightarrow>
                       (case HF_MONITOR_STATE s1 of
                          None \<Rightarrow> (Normal, s1)
                        | Some store \<Rightarrow>
                            (case kv_put store currentTime ''lastErrorAlertTime''
                                    (Number_toString currentTime) None of
                               Throws \<Rightarrow> (Abrupt, s1)
                             | Returns store' \<Rightarrow>
                                 (Normal, s1\<lparr>HF_MONITOR_STATE := Some store'\<rparr>)))))
           else (Normal, s)))"

definition handle_failure :: "collaborators \<Rightarrow> cycle_state \<Rightarrow> cycle_state" where
  "handle_failure co s = snd (handle_failure_try co s)"

definition scheduled :: "collaborators \<Rightarrow> cycle_state \<Rightarrow> cycle_state" where
  "scheduled co s =
     (case scheduled_try co s of
        (Normal, s') \<Rightarrow> s'
      | (Abrupt, s') \<Rightarrow> handle_failure co s')"

subsection \<open>Successive runs\<close>

text \<open>
  The hosting environment calls \<open>scheduled\<close> again and again on the same store. The
  number of error alerts attempted so far is read off the calls made; the times of the
  error alerts attempted over a list of runs are the times of the failure handler in the
  runs that attempted one.
\<close>

definition error_alerts :: "cycle_state \<Rightarrow> nat" where
  "error_alerts s = count_list (calls s) (SendAlert Error None)"

text \<open>
  What the error-alert throttle depends on in a state: the number of error alerts
  attempted and, of a bound store, the entry under \<open>lastErrorAlertTime\<close> and whether
  reads and writes reject.
\<close>

definition error_throttle_view ::
  "cycle_state \<Rightarrow> nat \<times> ((string \<times> int option) option \<times> (string \<Rightarrow> bool) \<times> (string \<Rightarrow> bool)) option"
  where
  "error_throttle_view s =
     (error_alerts s,
      map_option (\<lambda>store. (entries store ''lastErrorAlertTime'', get_rejects store, put_rejects store))
        (HF_MONITOR_STATE s))"

fun error_alert_times :: "collaborators list \<Rightarrow> cycle_state \<Rightarrow> int list" where
  "error_alert_times [] s = []"
| "error_alert_times (co # later) s =
     (if error_alerts (scheduled co s) = error_alerts s then [] else [error_time co])
       @ error_alert_times later (scheduled co s)"

section \<open>Sample collaborators\<close>

text \<open>
  A runtime and stores for the concrete instances below: the runtime writes the text
  \<open>record\<close> for every record and reads that text back as a record of the given level
  and time; it reads \<open>null\<close> as null and rejects every other text.
\<close>

definition sample_runtime :: "AlertLevel \<Rightarrow> int \<Rightarrow> js_runtime" where
  "sample_runtime lvl t =
     \<lparr>JSON_parse = (\<lambda>text. if text = ''record'' then JsonValue (Some (level_text lvl)) (millis t)
                            else if text = ''null'' then JsonNull else SyntaxError),
      JSON_stringify = (\<lambda>r. ''record'')\<rparr>"

text \<open>
  A runtime that reads the text \<open>{}\<close> as JSON does: an object with no \<open>level\<close>
  member and no \<open>timestamp\<close> member, so that the timestamp converts to NaN.
\<close>

definition empty_object_runtime :: js_runtime where
  "empty_object_runtime =
     \<lparr>JSON_parse = (\<lambda>text. if text = ''{}'' then JsonValue None NaN else SyntaxError),
      JSON_stringify = (\<lambda>r. ''record'')\<rparr>"

definition empty_store :: KVNamespace where
  "empty_store = \<lparr>entries = Map.empty, get_rejects = (\<lambda>k. False), put_rejects = (\<lambda>k. False)\<rparr>"

definition store_with :: "string \<Rightarrow> string \<Rightarrow> KVNamespace" where
  "store_with key text = empty_store\<lparr>entries := [key \<mapsto> (text, None)]\<rparr>"

definition sample_config :: WorkerEnv where
  "sample_config =
     \<lparr>HF_WARN = Fin 1.7, HF_CRIT = Fin 1.5, TELEGRAM_TOKEN = ''token'', CHATID = ''chat'',
      NOTION_PRICES_DB_ID = Some ''db'', NOTION_API_TOKEN = Some ''secret''\<rparr>"

text \<open>
  Collaborators of a run at time \<open>now\<close> in which the loan fetch answers \<open>loans\<close>,
  Telegram fails every request for a loan alert, the Notion database lists one asset,
  \<open>ADA\<close>, the data source prices every symbol asked for, and Notion refuses every
  write of a row.
\<close>

definition sample_collaborators :: "int \<Rightarrow> LoanInfo list outcome \<Rightarrow> collaborators" where
  "sample_collaborators now loans =
     \<lparr>runtime = sample_runtime Critical now,
      createEnv_result = Returns sample_config,
      fetchLoansSnapshot_result = loans,
      check_time = (\<lambda>i. now),
      telegram = (\<lambda>i n. Failed),
      record_time = (\<lambda>i. now),
      price_time = now,
      symbols_query = Returns [\<lparr>page_id = ''page1'', plain_text = Some ''ADA''\<rparr>],
      getPrices_result = (\<lambda>symbols. Returns symbols),
      rows_query = Returns [\<lparr>page_id = ''page1'', plain_text = Some ''ADA''\<rparr>],
      notion_write = (\<lambda>symbol. False),
      error_time = now,
      error_telegram = (\<lambda>n. Ok)\<rparr>"

definition sample_loan :: "string \<Rightarrow> rat \<Rightarrow> LoanInfo" where
  "sample_loan name hf = \<lparr>loan_id = name, loan_healthFactor = Fin hf, loan_assetSymbol = ''ADA''\<rparr>"

definition start_state :: "KVNamespace option \<Rightarrow> cycle_state" where
  "start_state kv = \<lparr>HF_MONITOR_STATE = kv, calls = [], hf_results = [], alertsSent = []\<rparr>"

section \<open>Unfolding rules for concrete runs\<close>

text \<open>The definitions a concrete run is evaluated with, grouped by component.\<close>

lemmas alert_manager_defs =
  shouldSendAlert_def shouldSendAlert_try_def recordAlert_def recordAlert_try_def
  kv_get_def kv_put_def COOLDOWN_MS_def KV_TTL_SECONDS_def millis_def js_ge_def

lemmas sample_defs =
  sample_runtime_def empty_store_def store_with_def alert_key_def round_trips_def

lemmas text_defs =
  parseInt_def strip_sign_def strip_prefix_def is_whitespace_def is_digit_def digit_of_def
  digit_value_def Number_toString_def digit_char_def char_of_eq_iff digits.simps

lemmas cycle_defs =
  scheduled_def scheduled_try_def handle_failure_def handle_failure_try_def
  read_timestamp_def error_alert_due_def sendAlert_def kv_get_def kv_put_def
  ERROR_ALERT_COOLDOWN_MS_def js_gt_def millis_def

lemmas sample_cycle_defs =
  sample_collaborators_def sample_config_def start_state_def sample_runtime_def
  empty_store_def store_with_def

lemmas loop_defs =
  process_loan_def alert_branch_def sendAlert_def sendAlert_loop.simps MAX_RETRIES_def Let_def

lemmas price_defs =
  update_prices_def update_prices_try_def getAssetSymbols_def getPrices_def
  updatePriceDatabase_def push_price_def ensureClient_def row_symbol_def truthy_def
  price_update_due_def PRICE_UPDATE_INTERVAL_MS_def List.map_filter_simps Let_def

section \<open>Properties of the classifier\<close>

lemma js_lt_trans: "js_lt a b \<Longrightarrow> js_lt b c \<Longrightarrow> js_lt a c"
  by (cases a; cases b; cases c) auto

lemma js_le_iff: "js_le a b \<longleftrightarrow> a \<noteq> NaN \<and> b \<noteq> NaN \<and> \<not> js_lt b a"
  by (cases a; cases b) auto

text \<open>
  Claim C4. For a numeric (non-NaN) health factor and thresholds with
  \<open>crit < warn\<close>, the classifier answers critical exactly when
  \<open>healthFactor < crit\<close>, warning exactly when \<open>crit \<le> healthFactor < warn\<close>
  and safe exactly when \<open>healthFactor \<ge> warn\<close>; a health factor equal to a
  threshold falls to the safer tier and \<open>+\<infinity>\<close> is safe. The three conditions are
  pairwise exclusive and one of them holds, so the three intervals partition the domain.
\<close>

theorem getRiskLevel_partition:
  assumes "js_lt crit warn" and "hf \<noteq> NaN"
  shows "(getRiskLevel hf warn crit = AtCritical \<longleftrightarrow> js_lt hf crit)
       \<and> (getRiskLevel hf warn crit = AtWarning \<longleftrightarrow> js_le crit hf \<and> js_lt hf warn)
       \<and> (getRiskLevel hf warn crit = Safe \<longleftrightarrow> js_ge hf warn)
       \<and> getRiskLevel warn warn crit = Safe
       \<and> getRiskLevel crit warn crit = AtWarning
       \<and> getRiskLevel PosInf warn crit = Safe"
proof -
  have w: "warn \<noteq> NaN" and c: "crit \<noteq> NaN"
    using assms(1) by (cases crit; cases warn; simp)+
  have irr: "\<not> js_lt x x" for x by (cases x) auto
  have below: "js_lt hf crit \<Longrightarrow> js_lt hf warn"
    using assms(1) js_lt_trans by blast
  have inf: "\<not> js_lt PosInf x" for x by (cases x) auto
  have asym: "\<not> js_lt warn crit"
    using assms(1) by (cases crit; cases warn) auto
  show ?thesis
    using assms w c irr below inf asym
    by (auto simp: getRiskLevel_def js_le_iff js_ge_def)
qed

theorem getRiskLevel_partition_witness:
  "js_lt (Fin 1.5) (Fin 1.7) \<and> Fin 1.6 \<noteq> NaN
   \<and> getRiskLevel (Fin 1.6) (Fin 1.7) (Fin 1.5) = AtWarning
   \<and> getRiskLevel (Fin 1.7) (Fin 1.7) (Fin 1.5) = Safe
   \<and> getRiskLevel (Fin 1.5) (Fin 1.7) (Fin 1.5) = AtWarning"
  using getRiskLevel_partition [of "Fin 1.5" "Fin 1.7" "Fin 1.6"]
  by (simp add: js_ge_def)

section \<open>Properties of the Alert Manager\<close>

text \<open>
  Claim C1. With a store bound whose reads and writes of the loan's key succeed, and
  built-ins that round-trip the record written, for a level \<open>L\<close> that is warning
  or critical: when the store holds nothing under the loan's key,
  \<open>shouldSendAlert(id, L, sym)\<close> returns true; and after \<open>recordAlert(id, L, sym)\<close>
  at time \<open>t\<close>, \<open>shouldSendAlert(id, L, sym)\<close> at time \<open>t'\<close> returns false when
  \<open>t' - t\<close> is below the ten-minute cooldown and true when it is at least the cooldown.
\<close>

theorem cooldown_after_record:
  assumes "L = Warning \<or> L = Critical"
    and "round_trips rt \<lparr>level = level_text L, timestamp = t, assetSymbol = symbol\<rparr>"
    and "\<not> get_rejects kv (alert_key loanId)"
    and "\<not> put_rejects kv (alert_key loanId)"
  shows "(entries kv (alert_key loanId) = None \<longrightarrow>
            shouldSendAlert rt (Some kv) t0 loanId L symbol = Returns True)
       \<and> (\<exists>kv'. recordAlert rt (Some kv) t loanId L symbol = Returns (Some kv')
              \<and> shouldSendAlert rt (Some kv') t' loanId L symbol
                  = Returns (COOLDOWN_MS \<le> t' - t))"
  using assms
  by (auto simp: alert_manager_defs round_trips_def
      split: option.splits outcome.splits parsed.splits if_splits)

theorem cooldown_after_record_witness:
  "(Warning = Warning \<or> Warning = Critical)
   \<and> round_trips (sample_runtime Warning 1000)
        \<lparr>level = level_text Warning, timestamp = 1000, assetSymbol = ''ADA''\<rparr>
   \<and> \<not> get_rejects empty_store (alert_key ''L1'')
   \<and> \<not> put_rejects empty_store (alert_key ''L1'')
   \<and> entries empty_store (alert_key ''L1'') = None
   \<and> shouldSendAlert (sample_runtime Warning 1000) (Some empty_store) 500 ''L1'' Warning ''ADA''
       = Returns True
   \<and> (\<exists>kv'. recordAlert (sample_runtime Warning 1000) (Some empty_store) 1000 ''L1'' Warning ''ADA''
               = Returns (Some kv')
          \<and> shouldSendAlert (sample_runtime Warning 1000) (Some kv') 1001 ''L1'' Warning ''ADA''
              = Returns False
          \<and> shouldSendAlert (sample_runtime Warning 1000) (Some kv') 601000 ''L1'' Warning ''ADA''
              = Returns True)"
proof -
  have pre: "round_trips (sample_runtime Warning 1000)
        \<lparr>level = level_text Warning, timestamp = 1000, assetSymbol = ''ADA''\<rparr>"
    "\<not> get_rejects empty_store (alert_key ''L1'')"
    "\<not> put_rejects empty_store (alert_key ''L1'')"
    "entries empty_store (alert_key ''L1'') = None"
    by (simp_all add: sample_defs)
  have lvl: "Warning = Warning \<or> Warning = Critical" by simp
  note inst = cooldown_after_record [OF lvl pre(1) pre(2) pre(3), of 500]
  from inst [of 1001] pre(4)
  have first: "shouldSendAlert (sample_runtime Warning 1000) (Some empty_store) 500 ''L1''
                 Warning ''ADA'' = Returns True"
    by blast
  from inst [of 1001] obtain kv' where
    rec: "recordAlert (sample_runtime Warning 1000) (Some empty_store) 1000 ''L1'' Warning ''ADA''
            = Returns (Some kv')"
    and soon: "shouldSendAlert (sample_runtime Warning 1000) (Some kv') 1001 ''L1'' Warning ''ADA''
            = Returns (COOLDOWN_MS \<le> 1001 - 1000)"
    by blast
  from inst [of 601000] rec
  have later: "shouldSendAlert (sample_runtime Warning 1000) (Some kv') 601000 ''L1'' Warning ''ADA''
            = Returns (COOLDOWN_MS \<le> 601000 - 1000)"
    by auto
  from soon later have
    "shouldSendAlert (sample_runtime Warning 1000) (Some kv') 1001 ''L1'' Warning ''ADA''
       = Returns False"
    "shouldSendAlert (sample_runtime Warning 1000) (Some kv') 601000 ''L1'' Warning ''ADA''
       = Returns True"
    by (simp_all add: COOLDOWN_MS_def)
  with rec first pre lvl show ?thesis by blast
qed

text \<open>
  Claim C2. When the record stored for a loan has level warning,
  \<open>shouldSendAlert(id, critical, sym)\<close> returns true at every time, whatever the stored
  timestamp: the escalation is not held back by the cooldown.
\<close>

theorem escalation_override:
  assumes "entries kv (alert_key loanId) = Some (storedData, expiry)"
    and "JSON_parse rt storedData = JsonValue (Some ''warning'') lastTimestamp"
  shows "shouldSendAlert rt (Some kv) now loanId Critical symbol = Returns True"
  using assms
  by (auto simp: alert_manager_defs split: option.splits outcome.splits parsed.splits)

theorem escalation_override_witness:
  "entries (store_with (alert_key ''L1'') ''record'') (alert_key ''L1'') = Some (''record'', None)
   \<and> JSON_parse (sample_runtime Warning 1000) ''record'' = JsonValue (Some ''warning'') (millis 1000)
   \<and> shouldSendAlert (sample_runtime Warning 1000) (Some (store_with (alert_key ''L1'') ''record''))
        1000 ''L1'' Critical ''ADA'' = Returns True
   \<and> shouldSendAlert (sample_runtime Warning 1000) (Some (store_with (alert_key ''L1'') ''record''))
        1000 ''L1'' Warning ''ADA'' = Returns False"
proof -
  have pre:
    "entries (store_with (alert_key ''L1'') ''record'') (alert_key ''L1'') = Some (''record'', None)"
    "JSON_parse (sample_runtime Warning 1000) ''record'' = JsonValue (Some ''warning'') (millis 1000)"
    by (simp_all add: sample_defs)
  have same_tier:
    "shouldSendAlert (sample_runtime Warning 1000) (Some (store_with (alert_key ''L1'') ''record''))
        1000 ''L1'' Warning ''ADA'' = Returns False"
    by (simp add: sample_defs alert_manager_defs)
  from escalation_override [OF pre, of 1000 "''ADA''"] pre same_tier
  show ?thesis by simp
qed

text \<open>
  The paths on which the Alert Manager fails open. With no store bound,
  \<open>shouldSendAlert\<close> returns true and \<open>recordAlert\<close> returns without throwing
  and leaves the binding as it is, for every loan, level and asset symbol. With a store
  bound, \<open>shouldSendAlert\<close> returns true when the read of the loan's key rejects and
  when the stored text does not parse (or parses to \<open>null\<close>, on which the member
  access throws): these are the paths that reach the \<open>catch\<close>.
\<close>

theorem fail_open:
  shows "shouldSendAlert rt None now loanId lvl symbol = Returns True
       \<and> recordAlert rt None now loanId lvl symbol = Returns None
       \<and> (get_rejects kv (alert_key loanId) \<longrightarrow>
            shouldSendAlert rt (Some kv) now loanId lvl symbol = Returns True)
       \<and> (kv_get kv now (alert_key loanId) = Returns (Some storedData)
            \<and> (JSON_parse rt storedData = SyntaxError \<or> JSON_parse rt storedData = JsonNull) \<longrightarrow>
            shouldSendAlert rt (Some kv) now loanId lvl symbol = Returns True)"
  by (auto simp: shouldSendAlert_def shouldSendAlert_try_def recordAlert_def kv_get_def
      split: option.splits outcome.splits parsed.splits)

theorem fail_open_witness:
  "get_rejects (empty_store\<lparr>get_rejects := (\<lambda>k. True)\<rparr>) (alert_key ''L1'')
   \<and> shouldSendAlert (sample_runtime Warning 1000) (Some (empty_store\<lparr>get_rejects := (\<lambda>k. True)\<rparr>))
        1000 ''L1'' Warning ''ADA'' = Returns True
   \<and> kv_get (store_with (alert_key ''L1'') ''{level:'') 1000 (alert_key ''L1'') = Returns (Some ''{level:'')
   \<and> JSON_parse (sample_runtime Warning 1000) ''{level:'' = SyntaxError
   \<and> shouldSendAlert (sample_runtime Warning 1000) (Some (store_with (alert_key ''L1'') ''{level:''))
        1000 ''L1'' Warning ''ADA'' = Returns True"
proof -
  have pre:
    "get_rejects (empty_store\<lparr>get_rejects := (\<lambda>k. True)\<rparr>) (alert_key ''L1'')"
    "kv_get (store_with (alert_key ''L1'') ''{level:'') 1000 (alert_key ''L1'')
       = Returns (Some ''{level:'')"
    "JSON_parse (sample_runtime Warning 1000) ''{level:'' = SyntaxError"
    by (simp_all add: sample_defs kv_get_def)
  from fail_open [of "sample_runtime Warning 1000" 1000 "''L1''" Warning "''ADA''"
        "empty_store\<lparr>get_rejects := (\<lambda>k. True)\<rparr>"] pre(1)
  have a: "shouldSendAlert (sample_runtime Warning 1000)
        (Some (empty_store\<lparr>get_rejects := (\<lambda>k. True)\<rparr>)) 1000 ''L1'' Warning ''ADA'' = Returns True"
    by blast
  from fail_open [of "sample_runtime Warning 1000" 1000 "''L1''" Warning "''ADA''"
        "store_with (alert_key ''L1'') ''{level:''" "''{level:''"] pre(2) pre(3)
  have b: "shouldSendAlert (sample_runtime Warning 1000)
        (Some (store_with (alert_key ''L1'') ''{level:'')) 1000 ''L1'' Warning ''ADA'' = Returns True"
    by blast
  from a b pre show ?thesis by blast
qed

text \<open>
  Claim C3, where the code departs from it. A stored text that parses, but to a value that
  is no alert record, throws nothing: for the text \<open>{}\<close> the timestamp member is
  missing, the elapsed time is NaN, the comparison with the cooldown is false and the
  escalation test is false, so \<open>shouldSendAlert\<close> returns false for a warning and
  for a critical alert alike, at the time of the first look and a day later as well (an
  entry without expiry stays). The corrupted record blocks the alert.
\<close>

theorem corrupted_record_blocks:
  "kv_get (store_with (alert_key ''L1'') ''{}'') 1000 (alert_key ''L1'') = Returns (Some ''{}'')
   \<and> JSON_parse empty_object_runtime ''{}'' = JsonValue None NaN
   \<and> shouldSendAlert empty_object_runtime (Some (store_with (alert_key ''L1'') ''{}''))
        1000 ''L1'' Warning ''ADA'' = Returns False
   \<and> shouldSendAlert empty_object_runtime (Some (store_with (alert_key ''L1'') ''{}''))
        1000 ''L1'' Critical ''ADA'' = Returns False
   \<and> shouldSendAlert empty_object_runtime (Some (store_with (alert_key ''L1'') ''{}''))
        86401000 ''L1'' Warning ''ADA'' = Returns False
   \<and> shouldSendAlert empty_object_runtime (Some (store_with (alert_key ''L1'') ''{}''))
        86401000 ''L1'' Critical ''ADA'' = Returns False"
  by (simp add: alert_manager_defs empty_object_runtime_def empty_store_def store_with_def
      alert_key_def)

text \<open>
  Claim C5. When the record stored for a loan has level critical and integer timestamp
  \<open>t\<close>, \<open>shouldSendAlert(id, warning, sym)\<close> at time \<open>now\<close> is decided by the
  elapsed time alone: false while \<open>now - t\<close> is below the ten-minute cooldown, true
  from then on. No rule for the step down from critical to warning intervenes.
\<close>

theorem deescalation_plain_cooldown:
  assumes "kv_get kv now (alert_key loanId) = Returns (Some storedData)"
    and "storedData \<noteq> []"
    and "JSON_parse rt storedData = JsonValue (Some ''critical'') (millis t)"
  shows "shouldSendAlert rt (Some kv) now loanId Warning symbol
           = Returns (COOLDOWN_MS \<le> now - t)"
  using assms
  by (auto simp: shouldSendAlert_def shouldSendAlert_try_def COOLDOWN_MS_def millis_def js_ge_def
      split: option.splits outcome.splits parsed.splits)

theorem deescalation_plain_cooldown_witness:
  "kv_get (store_with (alert_key ''L1'') ''record'') 600999 (alert_key ''L1'') = Returns (Some ''record'')
   \<and> ''record'' \<noteq> []
   \<and> JSON_parse (sample_runtime Critical 1000) ''record'' = JsonValue (Some ''critical'') (millis 1000)
   \<and> shouldSendAlert (sample_runtime Critical 1000) (Some (store_with (alert_key ''L1'') ''record''))
        600999 ''L1'' Warning ''ADA'' = Returns False
   \<and> shouldSendAlert (sample_runtime Critical 1000) (Some (store_with (alert_key ''L1'') ''record''))
        601000 ''L1'' Warning ''ADA'' = Returns True"
proof -
  have pre:
    "kv_get (store_with (alert_key ''L1'') ''record'') now (alert_key ''L1'') = Returns (Some ''record'')"
    "''record'' \<noteq> []"
    "JSON_parse (sample_runtime Critical 1000) ''record'' = JsonValue (Some ''critical'') (millis 1000)"
    for now
    by (simp_all add: sample_defs kv_get_def)
  from deescalation_plain_cooldown [OF pre, of 600999 "''ADA''"]
       deescalation_plain_cooldown [OF pre, of 601000 "''ADA''"] pre
  show ?thesis by (simp add: COOLDOWN_MS_def)
qed

section \<open>Properties of the timestamp text\<close>

lemma digit_of_digit_char: "d < 10 \<Longrightarrow> digit_of (digit_char d) = Some d"
  by (simp add: digit_of_def digit_char_def Let_def)

lemma is_digit_digit_char: "d < 10 \<Longrightarrow> is_digit 10 (digit_char d)"
  by (simp add: is_digit_def digit_of_digit_char)

lemma digit_value_digit_char: "d < 10 \<Longrightarrow> digit_value (digit_char d) = d"
  by (simp add: digit_value_def digit_of_digit_char)

lemma digit_char_plain:
  assumes "d < 10"
  shows "\<not> is_whitespace (digit_char d) \<and> digit_char d \<noteq> CHR ''-''
     \<and> digit_char d \<noteq> CHR ''+'' \<and> digit_char d \<noteq> CHR ''x'' \<and> digit_char d \<noteq> CHR ''X''"
proof -
  have code: "of_char (digit_char d) = 48 + d"
    using assms by (simp add: digit_char_def)
  have neq: "digit_char d \<noteq> c" if "(of_char c :: nat) \<noteq> 48 + d" for c
    using that code by auto
  show ?thesis
    using assms code by (auto simp: is_whitespace_def intro!: neq)
qed

lemma digits_all: "c \<in> set (digits n) \<Longrightarrow> \<exists>d<10. c = digit_char d"
proof (induction n rule: digits.induct)
  case (1 n)
  show ?case
  proof (cases "n < 10")
    case True
    with "1.prems" show ?thesis by (auto simp: digits.simps [of n])
  next
    case False
    with "1.prems" have "c \<in> set (digits (n div 10)) \<or> c = digit_char (n mod 10)"
      by (auto simp: digits.simps [of n])
    with False "1.IH" show ?thesis
      by (metis mod_less_divisor zero_less_numeral)
  qed
qed

lemma digits_nonempty: "digits n \<noteq> []"
  by (subst digits.simps) simp

lemma digits_value: "foldl (\<lambda>acc c. acc * 10 + digit_value c) 0 (digits n) = n"
proof (induction n rule: digits.induct)
  case (1 n)
  show ?case
  proof (cases "n < 10")
    case True
    then show ?thesis by (simp add: digits.simps [of n] digit_value_digit_char)
  next
    case False
    with "1.IH" show ?thesis
      by (simp add: digits.simps [of n] digit_value_digit_char)
  qed
qed

lemma digits_first:
  obtains d rest where "digits n = digit_char d # rest" and "d < 10"
proof -
  obtain c rest where cr: "digits n = c # rest"
    using digits_nonempty [of n] by (cases "digits n") auto
  then obtain d where "d < 10" "c = digit_char d"
    using digits_all [of c n] by auto
  with cr that show thesis by blast
qed

lemma strip_sign_digits: "strip_sign (digits n) = (1, digits n)"
proof -
  obtain d rest where "digits n = digit_char d # rest" "d < 10"
    by (rule digits_first)
  then show ?thesis
    using digit_char_plain [of d] by (simp add: strip_sign_def)
qed

lemma dropWhile_digits: "dropWhile is_whitespace (digits n) = digits n"
proof -
  obtain d rest where "digits n = digit_char d # rest" "d < 10"
    by (rule digits_first)
  then show ?thesis
    using digit_char_plain [of d] by simp
qed

lemma strip_prefix_digits: "strip_prefix (digits n) = (10, digits n)"
proof (cases "digits n")
  case Nil
  then show ?thesis by (simp add: strip_prefix_def)
next
  case outer: (Cons c rest)
  show ?thesis
  proof (cases rest)
    case Nil
    with outer show ?thesis by (simp add: strip_prefix_def)
  next
    case (Cons x rest')
    with outer have "x \<in> set (digits n)" by simp
    then obtain d where "d < 10" "x = digit_char d"
      using digits_all by blast
    with Cons outer show ?thesis
      using digit_char_plain [of d] by (simp add: strip_prefix_def)
  qed
qed

lemma takeWhile_digits: "takeWhile (is_digit 10) (digits n) = digits n"
  using digits_all is_digit_digit_char by (fastforce simp: takeWhile_eq_all_conv)

lemma parseInt_digits: "parseInt (digits n) = millis (int n)"
  by (simp add: parseInt_def dropWhile_digits strip_sign_digits strip_prefix_digits
      takeWhile_digits digits_nonempty digits_value millis_def)

lemma parseInt_minus_digits: "parseInt (CHR ''-'' # digits n) = millis (- int n)"
proof -
  have "\<not> is_whitespace CHR ''-''" by (simp add: is_whitespace_def)
  then show ?thesis
    by (simp add: parseInt_def strip_sign_def strip_prefix_digits
        takeWhile_digits digits_nonempty digits_value millis_def)
qed

lemma parseInt_Number_toString: "parseInt (Number_toString n) = millis n"
  by (simp add: Number_toString_def parseInt_digits parseInt_minus_digits)

lemma Number_toString_nonempty: "Number_toString n \<noteq> []"
  by (simp add: Number_toString_def digits_nonempty)

lemma elapsed_gt: "js_gt (js_sub (millis t') (millis t)) (millis c) \<longleftrightarrow> c < t' - t"
  by (simp add: js_gt_def millis_def flip: of_int_diff)

lemma error_alert_due_written:
  "error_alert_due (Some (Number_toString t)) t' \<longleftrightarrow> ERROR_ALERT_COOLDOWN_MS < t' - t"
  by (simp add: error_alert_due_def Number_toString_nonempty parseInt_Number_toString elapsed_gt)

lemma price_update_due_written:
  "price_update_due (Some (Number_toString t)) t' \<longleftrightarrow> PRICE_UPDATE_INTERVAL_MS < t' - t"
  by (simp add: price_update_due_def Number_toString_nonempty parseInt_Number_toString elapsed_gt)

section \<open>Properties of the loan loop\<close>

lemma shouldSendAlert_total: "shouldSendAlert rt kv now loanId lvl symbol \<noteq> Throws"
  by (simp add: shouldSendAlert_def split: option.splits outcome.splits)

lemma recordAlert_total: "recordAlert rt kv now loanId lvl symbol \<noteq> Throws"
  by (simp add: recordAlert_def split: option.splits outcome.splits)

lemma sendAlert_total: "sendAlert lvl config fetch \<noteq> Throws"
  by (simp add: sendAlert_def)

lemma alert_branch_normal: "fst (alert_branch co cfg i loan lvl s) = Normal"
  using shouldSendAlert_total recordAlert_total sendAlert_total
  by (simp add: alert_branch_def Let_def split: outcome.splits bool.splits)

lemma alert_branch_transport:
  "alert_branch (co\<lparr>telegram := other\<rparr>) cfg i loan lvl s = alert_branch co cfg i loan lvl s"
  using sendAlert_total
  by (simp add: alert_branch_def Let_def split: outcome.splits bool.splits)

lemma alert_branch_hf_results:
  "hf_results (snd (alert_branch co cfg i loan lvl s)) = hf_results s"
  by (simp add: alert_branch_def Let_def split: outcome.splits bool.splits)

lemma process_loan_normal: "fst (process_loan co cfg i loan s) = Normal"
  by (simp add: process_loan_def Let_def alert_branch_normal)

lemma process_loan_transport:
  "process_loan (co\<lparr>telegram := other\<rparr>) cfg i loan s = process_loan co cfg i loan s"
  by (simp add: process_loan_def Let_def alert_branch_transport)

lemma process_loan_hf_results:
  "hf_results (snd (process_loan co cfg i loan s)) = hf_results s @ [loan]"
  by (simp add: process_loan_def Let_def alert_branch_hf_results)

lemma process_loans_step:
  "process_loans co cfg i (loan # rest) s
     = process_loans co cfg (Suc i) rest (snd (process_loan co cfg i loan s))"
  using process_loan_normal [of co cfg i loan s]
  by (cases "process_loan co cfg i loan s") simp

lemma process_loans_normal: "fst (process_loans co cfg i loans s) = Normal"
  by (induction loans arbitrary: i s)
     (simp_all del: process_loans.simps(2) add: process_loans_step)

lemma process_loans_hf_results:
  "hf_results (snd (process_loans co cfg i loans s)) = hf_results s @ loans"
  by (induction loans arbitrary: i s)
     (simp_all del: process_loans.simps(2) add: process_loans_step process_loan_hf_results)

lemma process_loans_transport:
  "process_loans (co\<lparr>telegram := other\<rparr>) cfg i loans s = process_loans co cfg i loans s"
  by (induction loans arbitrary: i s)
     (simp_all del: process_loans.simps(2) add: process_loans_step process_loan_transport)

lemma process_loans_append:
  "process_loans co cfg i (before @ rest) s
     = process_loans co cfg (i + length before) rest (snd (process_loans co cfg i before s))"
  by (induction before arbitrary: i s)
     (simp_all del: process_loans.simps(2) add: process_loans_step)

lemma process_loan_by_tier:
  "process_loan co cfg i loan s =
     (case getRiskLevel (loan_healthFactor loan) (HF_WARN cfg) (HF_CRIT cfg) of
        AtCritical \<Rightarrow> alert_branch co cfg i loan Critical (s\<lparr>hf_results := hf_results s @ [loan]\<rparr>)
      | AtWarning \<Rightarrow> alert_branch co cfg i loan Warning (s\<lparr>hf_results := hf_results s @ [loan]\<rparr>)
      | Safe \<Rightarrow> (Normal, s\<lparr>hf_results := hf_results s @ [loan]\<rparr>))"
  by (simp add: process_loan_def getRiskLevel_def Let_def)

text \<open>
  Claim C8. Whatever Telegram answers, \<open>sendAlert\<close> returns and the loop over the
  loans runs to its end: every loan of the snapshot is entered in \<open>hf_results\<close>; the
  state the loop leaves (the store, the calls made, the alerts sent) is the same under
  any other behaviour of Telegram; and each loan of the list is processed, from the state
  the loans before it left, with the loans after it processed in turn.
\<close>

theorem per_loan_isolation:
  "sendAlert lvl cfg fetch \<noteq> Throws
   \<and> fst (process_loans co cfg i loans s) = Normal
   \<and> hf_results (snd (process_loans co cfg i loans s)) = hf_results s @ loans
   \<and> process_loans (co\<lparr>telegram := other\<rparr>) cfg i loans s = process_loans co cfg i loans s
   \<and> process_loans co cfg i (before @ loan # rest) s
       = process_loans co cfg (Suc (i + length before)) rest
           (snd (process_loan co cfg (i + length before) loan
                  (snd (process_loans co cfg i before s))))"
  by (simp del: process_loans.simps(2)
      add: sendAlert_total process_loans_normal process_loans_hf_results
        process_loans_transport process_loans_append process_loans_step)

theorem per_loan_isolation_witness:
  "sendAlert Critical sample_config (telegram (sample_collaborators 1000 Throws) 0) = Returns False
   \<and> fst (process_loans (sample_collaborators 1000 Throws) sample_config 0
            [sample_loan ''L1'' 1.4, sample_loan ''L2'' 1.6] (start_state (Some empty_store))) = Normal
   \<and> hf_results (snd (process_loans (sample_collaborators 1000 Throws) sample_config 0
            [sample_loan ''L1'' 1.4, sample_loan ''L2'' 1.6] (start_state (Some empty_store))))
       = [sample_loan ''L1'' 1.4, sample_loan ''L2'' 1.6]
   \<and> calls (snd (process_loans (sample_collaborators 1000 Throws) sample_config 0
            [sample_loan ''L1'' 1.4, sample_loan ''L2'' 1.6] (start_state (Some empty_store))))
       = [SendAlert Critical (Some (sample_loan ''L1'' 1.4)),
          SendAlert Warning (Some (sample_loan ''L2'' 1.6))]"
proof -
  have failed:
    "sendAlert Critical sample_config (telegram (sample_collaborators 1000 Throws) 0) = Returns False"
    by (simp add: loop_defs sample_cycle_defs)
  have sent: "calls (snd (process_loans (sample_collaborators 1000 Throws) sample_config 0
            [sample_loan ''L1'' 1.4, sample_loan ''L2'' 1.6] (start_state (Some empty_store))))
       = [SendAlert Critical (Some (sample_loan ''L1'' 1.4)),
          SendAlert Warning (Some (sample_loan ''L2'' 1.6))]"
    by (simp add: loop_defs sample_cycle_defs sample_loan_def alert_manager_defs alert_key_def)
  from per_loan_isolation [of Critical sample_config "\<lambda>n. Failed"
      "sample_collaborators 1000 Throws" 0 "[sample_loan ''L1'' 1.4, sample_loan ''L2'' 1.6]"
      "start_state (Some empty_store)"]
  have "fst (process_loans (sample_collaborators 1000 Throws) sample_config 0
            [sample_loan ''L1'' 1.4, sample_loan ''L2'' 1.6] (start_state (Some empty_store))) = Normal"
    and "hf_results (snd (process_loans (sample_collaborators 1000 Throws) sample_config 0
            [sample_loan ''L1'' 1.4, sample_loan ''L2'' 1.6] (start_state (Some empty_store))))
       = hf_results (start_state (Some empty_store))
           @ [sample_loan ''L1'' 1.4, sample_loan ''L2'' 1.6]"
    by blast+
  with failed sent show ?thesis by (simp add: start_state_def)
qed

text \<open>
  Claim C9. A NaN health factor is below neither threshold, so the classifier answers
  safe, and the loop enters the loan in \<open>hf_results\<close> and does nothing else for it: no
  cooldown is consulted, no alert is sent, nothing is recorded.
\<close>

theorem nan_health_factor_is_safe:
  "\<not> js_lt NaN crit \<and> \<not> js_lt NaN warn
   \<and> getRiskLevel NaN warn crit = Safe
   \<and> process_loan co cfg i (loan\<lparr>loan_healthFactor := NaN\<rparr>) s
       = (Normal, s\<lparr>hf_results := hf_results s @ [loan\<lparr>loan_healthFactor := NaN\<rparr>]\<rparr>)"
  by (simp add: getRiskLevel_def process_loan_def)

theorem nan_health_factor_is_safe_witness:
  "getRiskLevel NaN (Fin 1.7) (Fin 1.5) = Safe
   \<and> process_loan (sample_collaborators 1000 Throws) sample_config 0
        ((sample_loan ''L1'' 1.4)\<lparr>loan_healthFactor := NaN\<rparr>) (start_state (Some empty_store))
       = (Normal, (start_state (Some empty_store))
                    \<lparr>hf_results := [(sample_loan ''L1'' 1.4)\<lparr>loan_healthFactor := NaN\<rparr>]\<rparr>)"
  using nan_health_factor_is_safe [of "Fin 1.5" "Fin 1.7" "sample_collaborators 1000 Throws"
      sample_config 0 "sample_loan ''L1'' 1.4" "start_state (Some empty_store)"]
  by (simp add: start_state_def)

text \<open>
  Claim C10. When a loan is below a threshold and \<open>shouldSendAlert\<close> permits its
  alert, the loop records the alert after the call of \<open>sendAlert\<close> whatever that call
  returns: with a store bound whose write of the loan's key succeeds, the store then holds
  the record under the loan's key, with the time of recording and the one-hour expiry, and
  the alert is entered in \<open>alertsSent\<close>. So, when the store reads the key and the
  built-ins round-trip the record, an alert of the same level for the loan is refused until
  ten minutes after the recording, also when the delivery failed.
\<close>

theorem record_after_failed_delivery:
  assumes tier: "js_lt (loan_healthFactor loan) (HF_CRIT cfg)
                 \<or> js_lt (loan_healthFactor loan) (HF_WARN cfg)"
    and lvl: "lvl = (if js_lt (loan_healthFactor loan) (HF_CRIT cfg) then Critical else Warning)"
    and permit: "shouldSendAlert (runtime co) (HF_MONITOR_STATE s) (check_time co i)
                   (loan_id loan) lvl (loan_assetSymbol loan) = Returns True"
    and store: "HF_MONITOR_STATE s = Some store"
    and writes: "\<not> put_rejects store (alert_key (loan_id loan))"
    and reads: "\<not> get_rejects store (alert_key (loan_id loan))"
    and rt: "round_trips (runtime co)
               \<lparr>level = level_text lvl, timestamp = record_time co i,
                assetSymbol = loan_assetSymbol loan\<rparr>"
  shows "\<exists>s'. process_loan co cfg i loan s = (Normal, s')
          \<and> calls s' = calls s @ [SendAlert lvl (Some loan)]
          \<and> alertsSent s' = alertsSent s @ [(lvl, loan)]
          \<and> HF_MONITOR_STATE s' =
              Some (store\<lparr>entries := (entries store)(alert_key (loan_id loan) \<mapsto>
                     (JSON_stringify (runtime co)
                        \<lparr>level = level_text lvl, timestamp = record_time co i,
                         assetSymbol = loan_assetSymbol loan\<rparr>,
                      Some (record_time co i + KV_TTL_SECONDS * 1000)))\<rparr>)
          \<and> shouldSendAlert (runtime co) (HF_MONITOR_STATE s') t' (loan_id loan) lvl
                (loan_assetSymbol loan) = Returns (COOLDOWN_MS \<le> t' - record_time co i)"
proof -
  define s1 where "s1 = s\<lparr>hf_results := hf_results s @ [loan]\<rparr>"
  have branch: "process_loan co cfg i loan s = alert_branch co cfg i loan lvl s1"
    using tier lvl by (auto simp: process_loan_def Let_def s1_def)
  have lv: "lvl = Warning \<or> lvl = Critical" using lvl by simp
  define store' where "store' = store\<lparr>entries := (entries store)(alert_key (loan_id loan) \<mapsto>
                     (JSON_stringify (runtime co)
                        \<lparr>level = level_text lvl, timestamp = record_time co i,
                         assetSymbol = loan_assetSymbol loan\<rparr>,
                      Some (record_time co i + KV_TTL_SECONDS * 1000)))\<rparr>"
  have recorded: "recordAlert (runtime co) (Some store) (record_time co i) (loan_id loan) lvl
          (loan_assetSymbol loan) = Returns (Some store')"
    using lv writes by (auto simp: recordAlert_def recordAlert_try_def kv_put_def store'_def)
  obtain delivered where sent: "sendAlert lvl cfg (telegram co i) = Returns delivered"
    using sendAlert_total [of lvl cfg "telegram co i"]
    by (cases "sendAlert lvl cfg (telegram co i)") auto
  have result: "alert_branch co cfg i loan lvl s1
      = (Normal, s1\<lparr>calls := calls s @ [SendAlert lvl (Some loan)],
                     HF_MONITOR_STATE := Some store',
                     alertsSent := alertsSent s @ [(lvl, loan)]\<rparr>)"
    using permit store recorded sent
    by (auto simp: alert_branch_def Let_def s1_def)
  have later: "shouldSendAlert (runtime co) (Some store') t' (loan_id loan) lvl
                (loan_assetSymbol loan) = Returns (COOLDOWN_MS \<le> t' - record_time co i)"
    using lv reads rt
    by (auto simp: alert_manager_defs round_trips_def store'_def
        split: option.splits outcome.splits parsed.splits if_splits)
  show ?thesis
    using branch result later by (simp add: store'_def)
qed

theorem record_after_failed_delivery_witness:
  "js_lt (loan_healthFactor (sample_loan ''L1'' 1.4)) (HF_CRIT sample_config)
   \<and> shouldSendAlert (runtime (sample_collaborators 2000 Throws))
        (HF_MONITOR_STATE (start_state (Some empty_store)))
        (check_time (sample_collaborators 2000 Throws) 0) ''L1'' Critical ''ADA'' = Returns True
   \<and> sendAlert Critical sample_config (telegram (sample_collaborators 2000 Throws) 0) = Returns False
   \<and> round_trips (runtime (sample_collaborators 2000 Throws))
        \<lparr>level = level_text Critical, timestamp = 2000, assetSymbol = ''ADA''\<rparr>
   \<and> (\<exists>s'. process_loan (sample_collaborators 2000 Throws) sample_config 0
               (sample_loan ''L1'' 1.4) (start_state (Some empty_store)) = (Normal, s')
          \<and> alertsSent s' = [(Critical, sample_loan ''L1'' 1.4)]
          \<and> shouldSendAlert (runtime (sample_collaborators 2000 Throws)) (HF_MONITOR_STATE s')
               2001 ''L1'' Critical ''ADA'' = Returns False)"
proof -
  let ?co = "sample_collaborators 2000 Throws"
  let ?loan = "sample_loan ''L1'' 1.4"
  let ?s = "start_state (Some empty_store)"
  have tier: "js_lt (loan_healthFactor ?loan) (HF_CRIT sample_config)"
    by (simp add: sample_loan_def sample_config_def)
  have lvl: "Critical = (if js_lt (loan_healthFactor ?loan) (HF_CRIT sample_config)
                         then Critical else Warning)"
    using tier by simp
  have fields: "loan_id ?loan = ''L1''" "loan_assetSymbol ?loan = ''ADA''"
    "record_time ?co 0 = 2000" "check_time ?co 0 = 2000"
    by (simp_all add: sample_loan_def sample_collaborators_def)
  have permit: "shouldSendAlert (runtime ?co) (HF_MONITOR_STATE ?s) (check_time ?co 0)
        (loan_id ?loan) Critical (loan_assetSymbol ?loan) = Returns True"
    by (simp add: sample_cycle_defs sample_loan_def alert_manager_defs alert_key_def)
  have store: "HF_MONITOR_STATE ?s = Some empty_store"
    "\<not> put_rejects empty_store (alert_key (loan_id ?loan))"
    "\<not> get_rejects empty_store (alert_key (loan_id ?loan))"
    by (simp_all add: start_state_def empty_store_def)
  have rt: "round_trips (runtime ?co)
        \<lparr>level = level_text Critical, timestamp = record_time ?co 0,
         assetSymbol = loan_assetSymbol ?loan\<rparr>"
    by (simp add: round_trips_def sample_cycle_defs sample_loan_def)
  have failed: "sendAlert Critical sample_config (telegram ?co 0) = Returns False"
    by (simp add: loop_defs sample_cycle_defs)
  from record_after_failed_delivery [OF disjI1 [OF tier] lvl permit store rt, of 2001]
  obtain s' where "process_loan ?co sample_config 0 ?loan ?s = (Normal, s')"
    and "alertsSent s' = alertsSent ?s @ [(Critical, ?loan)]"
    and "shouldSendAlert (runtime ?co) (HF_MONITOR_STATE s') 2001 (loan_id ?loan) Critical
           (loan_assetSymbol ?loan) = Returns (COOLDOWN_MS \<le> 2001 - record_time ?co 0)"
    by blast
  then have "process_loan ?co sample_config 0 ?loan ?s = (Normal, s')
      \<and> alertsSent s' = [(Critical, ?loan)]
      \<and> shouldSendAlert (runtime ?co) (HF_MONITOR_STATE s') 2001 ''L1'' Critical ''ADA''
          = Returns False"
    by (simp add: sample_loan_def sample_collaborators_def COOLDOWN_MS_def start_state_def)
  then have ex: "\<exists>s'. process_loan ?co sample_config 0 ?loan ?s = (Normal, s')
      \<and> alertsSent s' = [(Critical, ?loan)]
      \<and> shouldSendAlert (runtime ?co) (HF_MONITOR_STATE s') 2001 ''L1'' Critical ''ADA''
          = Returns False"
    by blast
  from tier permit failed rt ex show ?thesis
    by (simp add: sample_loan_def sample_collaborators_def)
qed

section \<open>Properties of the price mirror step\<close>

lemma push_price_store:
  "HF_MONITOR_STATE (snd (push_price co existingRows acc symbol)) = HF_MONITOR_STATE (snd acc)"
  by (cases acc) (simp add: push_price_def Let_def)

lemma foldl_push_price_store:
  "HF_MONITOR_STATE (snd (foldl (push_price co existingRows) acc prices))
     = HF_MONITOR_STATE (snd acc)"
  by (induction prices arbitrary: acc) (simp_all add: push_price_store)

lemma foldl_push_price_result:
  "foldl (push_price co existingRows) acc prices = (results, s1) \<Longrightarrow>
     HF_MONITOR_STATE s1 = HF_MONITOR_STATE (snd acc)"
  using foldl_push_price_store [of co existingRows acc prices] by simp

lemma getAssetSymbols_store:
  "getAssetSymbols co cfg s = (r, s1) \<Longrightarrow> HF_MONITOR_STATE s1 = HF_MONITOR_STATE s"
  by (auto simp: getAssetSymbols_def Let_def split: outcome.splits bool.splits)

lemma getPrices_store:
  "getPrices co symbols s = (r, s1) \<Longrightarrow> HF_MONITOR_STATE s1 = HF_MONITOR_STATE s"
  by (auto simp: getPrices_def split: if_splits)

lemma updatePriceDatabase_store:
  "updatePriceDatabase co cfg prices s = (r, s1) \<Longrightarrow> HF_MONITOR_STATE s1 = HF_MONITOR_STATE s"
  by (auto simp: updatePriceDatabase_def Let_def dest: foldl_push_price_result
      split: outcome.splits bool.splits prod.splits)

lemma getAssetSymbols_result:
  "getAssetSymbols co cfg s = (Returns symbols, s1) \<Longrightarrow> symbols \<noteq> [] \<Longrightarrow>
     truthy (NOTION_API_TOKEN cfg) \<and> truthy (NOTION_PRICES_DB_ID cfg)
     \<and> (\<exists>rows. symbols_query co = Returns rows \<and> symbols = List.map_filter row_symbol rows)"
  by (auto simp: getAssetSymbols_def ensureClient_def Let_def
      split: outcome.splits bool.splits if_splits)

lemma getPrices_result:
  "getPrices co symbols s = (Returns prices, s1) \<Longrightarrow> symbols \<noteq> [] \<Longrightarrow>
     getPrices_result co symbols = Returns prices"
  by (auto simp: getPrices_def split: if_splits)

lemma updatePriceDatabase_result:
  "updatePriceDatabase co cfg prices s = (Returns result, s1) \<Longrightarrow>
     truthy (NOTION_API_TOKEN cfg) \<Longrightarrow> \<exists>existingRows. rows_query co = Returns existingRows"
  by (auto simp: updatePriceDatabase_def ensureClient_def Let_def
      split: outcome.splits bool.splits if_splits prod.splits)

lemma updatePriceDatabase_returns:
  assumes "truthy (NOTION_API_TOKEN cfg)" "truthy (NOTION_PRICES_DB_ID cfg)"
    and "rows_query co = Returns existingRows"
  shows "\<exists>result s1. updatePriceDatabase co cfg prices s = (Returns result, s1)"
  using assms
  by (auto simp: updatePriceDatabase_def ensureClient_def Let_def split: prod.splits)

lemma update_prices_skipped:
  assumes "read_timestamp (HF_MONITOR_STATE s) (price_time co) ''lastPriceUpdateTime''
             = Returns lastPriceUpdateTime"
    and "\<not> price_update_due lastPriceUpdateTime (price_time co)"
  shows "update_prices co cfg s = s"
  using assms by (simp add: update_prices_def update_prices_try_def)

lemma update_prices_runs_only_when_due:
  assumes "calls (update_prices co cfg s) \<noteq> calls s"
  shows "truthy (NOTION_PRICES_DB_ID cfg)
     \<and> (\<exists>lastPriceUpdateTime.
           read_timestamp (HF_MONITOR_STATE s) (price_time co) ''lastPriceUpdateTime''
             = Returns lastPriceUpdateTime
           \<and> price_update_due lastPriceUpdateTime (price_time co))"
proof (cases "read_timestamp (HF_MONITOR_STATE s) (price_time co) ''lastPriceUpdateTime''")
  case Throws
  with assms show ?thesis
    by (simp add: update_prices_def update_prices_try_def split: if_splits)
next
  case (Returns lastPriceUpdateTime)
  with assms show ?thesis
    by (cases "price_update_due lastPriceUpdateTime (price_time co)")
       (auto simp: update_prices_def update_prices_try_def Let_def split: if_splits)
qed

lemma update_prices_timestamp_only_if:
  "HF_MONITOR_STATE (update_prices co cfg s) = HF_MONITOR_STATE s
   \<or> (\<exists>store rows prices existingRows.
         HF_MONITOR_STATE s = Some store
         \<and> truthy (NOTION_PRICES_DB_ID cfg) \<and> truthy (NOTION_API_TOKEN cfg)
         \<and> \<not> put_rejects store ''lastPriceUpdateTime''
         \<and> symbols_query co = Returns rows
         \<and> List.map_filter row_symbol rows \<noteq> []
         \<and> getPrices_result co
              (map (\<lambda>symbol. if symbol = ''ADA'' then ''Ada'' else symbol)
                 (List.map_filter row_symbol rows)) = Returns prices
         \<and> rows_query co = Returns existingRows
         \<and> HF_MONITOR_STATE (update_prices co cfg s) =
             Some (store\<lparr>entries := (entries store)(''lastPriceUpdateTime'' \<mapsto>
                     (Number_toString (price_time co), None))\<rparr>))"
proof (cases "HF_MONITOR_STATE (update_prices co cfg s) = HF_MONITOR_STATE s")
  case True
  then show ?thesis by simp
next
  case False
  then have db: "truthy (NOTION_PRICES_DB_ID cfg)"
    and changed: "HF_MONITOR_STATE (snd (update_prices_try co cfg s)) \<noteq> HF_MONITOR_STATE s"
    by (auto simp: update_prices_def split: if_splits)
  from changed obtain lastPriceUpdateTime where
    "read_timestamp (HF_MONITOR_STATE s) (price_time co) ''lastPriceUpdateTime''
       = Returns lastPriceUpdateTime"
    and due: "price_update_due lastPriceUpdateTime (price_time co)"
    by (cases "read_timestamp (HF_MONITOR_STATE s) (price_time co) ''lastPriceUpdateTime''")
       (auto simp: update_prices_try_def Let_def split: if_splits)
  with changed have after_read:
    "HF_MONITOR_STATE (snd (case getAssetSymbols co cfg s of
                (Throws, s1) \<Rightarrow> (Abrupt, s1)
              | (Returns assetSymbols, s1) \<Rightarrow>
                  if assetSymbols \<noteq> [] then
                    (let liqwidSymbols =
                           map (\<lambda>symbol. if symbol = ''ADA'' then ''Ada'' else symbol) assetSymbols
                     in case getPrices co liqwidSymbols s1 of
                          (Throws, s2) \<Rightarrow> (Abrupt, s2)
                        | (Returns prices, s2) \<Rightarrow>
                            (case updatePriceDatabase co cfg prices s2 of
                               (Throws, s3) \<Rightarrow> (Abrupt, s3)
                             | (Returns result, s3) \<Rightarrow>
                                 (case HF_MONITOR_STATE s3 of
                                    None \<Rightarrow> (Normal, s3)
                                  | Some store \<Rightarrow>
                                      (case kv_put store (price_time co) ''lastPriceUpdateTime''
                                              (Number_toString (price_time co)) None of
                                         Throws \<Rightarrow> (Abrupt, s3)
                                       | Returns store' \<Rightarrow>
                                           (Normal, s3\<lparr>HF_MONITOR_STATE := Some store'\<rparr>)))))
                  else (Normal, s1))) \<noteq> HF_MONITOR_STATE s"
    by (simp add: update_prices_try_def Let_def)
  obtain r1 s1 where g1: "getAssetSymbols co cfg s = (r1, s1)" by force
  note st1 = getAssetSymbols_store [OF g1]
  from after_read g1 st1 obtain assetSymbols where
    r1: "r1 = Returns assetSymbols" and ne: "assetSymbols \<noteq> []"
    by (cases r1) (auto split: if_splits)
  define liqwidSymbols where
    "liqwidSymbols = map (\<lambda>symbol. if symbol = ''ADA'' then ''Ada'' else symbol) assetSymbols"
  obtain r2 s2 where g2: "getPrices co liqwidSymbols s1 = (r2, s2)" by force
  note st2 = getPrices_store [OF g2]
  from after_read g1 r1 ne g2 st1 st2 obtain prices where r2: "r2 = Returns prices"
    by (cases r2) (auto simp: liqwidSymbols_def Let_def)
  obtain r3 s3 where g3: "updatePriceDatabase co cfg prices s2 = (r3, s3)" by force
  note st3 = updatePriceDatabase_store [OF g3]
  from after_read g1 r1 ne g2 r2 g3 st1 st2 st3 obtain result where r3: "r3 = Returns result"
    by (cases r3) (auto simp: liqwidSymbols_def Let_def)
  from after_read g1 r1 ne g2 r2 g3 r3 st1 st2 st3 obtain store where
    store: "HF_MONITOR_STATE s = Some store"
    and put: "\<not> put_rejects store ''lastPriceUpdateTime''"
    by (cases "HF_MONITOR_STATE s")
       (auto simp: liqwidSymbols_def Let_def kv_put_def split: if_splits)
  have final: "HF_MONITOR_STATE (update_prices co cfg s) =
             Some (store\<lparr>entries := (entries store)(''lastPriceUpdateTime'' \<mapsto>
                     (Number_toString (price_time co), None))\<rparr>)"
    using db \<open>read_timestamp (HF_MONITOR_STATE s) (price_time co) ''lastPriceUpdateTime''
       = Returns lastPriceUpdateTime\<close> due g1 r1 ne g2 r2 g3 r3 st1 st2 st3 store put
    by (simp add: update_prices_def update_prices_try_def Let_def kv_put_def
        flip: liqwidSymbols_def)
  from getAssetSymbols_result [OF g1 [unfolded r1] ne] obtain rows where
    rows: "symbols_query co = Returns rows" "assetSymbols = List.map_filter row_symbol rows"
    and token: "truthy (NOTION_API_TOKEN cfg)"
    by blast
  have "liqwidSymbols \<noteq> []" using ne by (simp add: liqwidSymbols_def)
  from getPrices_result [OF g2 [unfolded r2] this]
  have prices: "getPrices_result co liqwidSymbols = Returns prices" .
  from updatePriceDatabase_result [OF g3 [unfolded r3] token] obtain existingRows where
    existing: "rows_query co = Returns existingRows" by blast
  from store db token put ne rows prices existing final show ?thesis
    by (auto simp: liqwidSymbols_def)
qed

lemma update_prices_empty_list:
  assumes "symbols_query co = Returns rows" and "List.map_filter row_symbol rows = []"
  shows "HF_MONITOR_STATE (update_prices co cfg s) = HF_MONITOR_STATE s"
  using update_prices_timestamp_only_if [of co cfg s] assms by auto

lemma update_prices_thrown:
  assumes "symbols_query co = Throws \<or> rows_query co = Throws
           \<or> (\<exists>rows. symbols_query co = Returns rows
                 \<and> getPrices_result co
                      (map (\<lambda>symbol. if symbol = ''ADA'' then ''Ada'' else symbol)
                         (List.map_filter row_symbol rows)) = Throws)"
  shows "HF_MONITOR_STATE (update_prices co cfg s) = HF_MONITOR_STATE s"
  using update_prices_timestamp_only_if [of co cfg s] assms by auto

lemma scheduled_runs_update_prices:
  assumes "createEnv_result co = Returns cfg" and "fetchLoansSnapshot_result co = Returns loans"
  shows "scheduled co s =
           update_prices co cfg
             (snd (process_loans co cfg 0 loans
                     ((s\<lparr>calls := calls s @ [LoansQuery]\<rparr>)\<lparr>hf_results := [], alertsSent := []\<rparr>)))"
proof -
  obtain c s2 where loop: "process_loans co cfg 0 loans
      ((s\<lparr>calls := calls s @ [LoansQuery]\<rparr>)\<lparr>hf_results := [], alertsSent := []\<rparr>) = (c, s2)"
    by force
  with process_loans_normal [of co cfg 0 loans
      "(s\<lparr>calls := calls s @ [LoansQuery]\<rparr>)\<lparr>hf_results := [], alertsSent := []\<rparr>"]
  have "c = Normal" by simp
  with loop assms show ?thesis
    by (simp add: scheduled_def scheduled_try_def Let_def)
qed

lemma update_prices_timestamp_if:
  assumes db: "truthy (NOTION_PRICES_DB_ID cfg)" and token: "truthy (NOTION_API_TOKEN cfg)"
    and store: "HF_MONITOR_STATE s = Some store"
    and put: "\<not> put_rejects store ''lastPriceUpdateTime''"
    and read: "kv_get store (price_time co) ''lastPriceUpdateTime'' = Returns lastPriceUpdateTime"
    and due: "price_update_due lastPriceUpdateTime (price_time co)"
    and rows: "symbols_query co = Returns rows"
    and ne: "List.map_filter row_symbol rows \<noteq> []"
    and prices: "getPrices_result co
                   (map (\<lambda>symbol. if symbol = ''ADA'' then ''Ada'' else symbol)
                      (List.map_filter row_symbol rows)) = Returns prices"
    and existing: "rows_query co = Returns existingRows"
  shows "HF_MONITOR_STATE (update_prices co cfg s) =
           Some (store\<lparr>entries := (entries store)(''lastPriceUpdateTime'' \<mapsto>
                   (Number_toString (price_time co), None))\<rparr>)"
proof -
  define s1 where "s1 = s\<lparr>calls := calls s @ [NotionQuery]\<rparr>"
  define liqwidSymbols where
    "liqwidSymbols = map (\<lambda>symbol. if symbol = ''ADA'' then ''Ada'' else symbol)
                       (List.map_filter row_symbol rows)"
  define s2 where "s2 = s1\<lparr>calls := calls s1 @ [PricesQuery liqwidSymbols]\<rparr>"
  have g1: "getAssetSymbols co cfg s = (Returns (List.map_filter row_symbol rows), s1)"
    using db token rows by (simp add: getAssetSymbols_def ensureClient_def s1_def)
  have "liqwidSymbols \<noteq> []" using ne by (simp add: liqwidSymbols_def)
  then have g2: "getPrices co liqwidSymbols s1 = (Returns prices, s2)"
    using prices by (simp add: getPrices_def s2_def liqwidSymbols_def)
  from updatePriceDatabase_returns [OF token db existing, of prices s2]
  obtain result s3 where g3: "updatePriceDatabase co cfg prices s2 = (Returns result, s3)"
    by blast
  from updatePriceDatabase_store [OF g3] store
  have st3: "HF_MONITOR_STATE s3 = Some store" by (simp add: s2_def s1_def)
  show ?thesis
    using db store put read due ne g1 g2 g3 st3
    by (simp add: update_prices_def update_prices_try_def read_timestamp_def Let_def kv_put_def
        flip: liqwidSymbols_def)
qed

text \<open>
  Claim C7, as amended. The price step makes a call only when
  \<open>NOTION_PRICES_DB_ID\<close> is set and the value read for \<open>lastPriceUpdateTime\<close> is
  absent or empty (no store bound reads as absent) or
  \<open>currentTime - parseInt(value)\<close> is strictly greater than one hour; a timestamp the
  step wrote at time \<open>t\<close> lets it run at time \<open>t'\<close> exactly when \<open>t' - t\<close>
  exceeds one hour, and otherwise the step changes nothing. The stored timestamp changes
  only when the asset list was read and is not empty, the prices were fetched and the
  existing rows were read, and then it is the time of the step; and it does change
  whenever these three calls return, the asset list is not empty and the write to the
  store succeeds, whether or not the writes of the rows to Notion succeeded. When the
  asset list is empty, or one of the three calls throws, the stored timestamp is
  unchanged. A run of \<open>scheduled\<close> whose configuration validates and whose loan fetch
  returns is the loan loop followed by this step.
\<close>

theorem price_mirror_throttle:
  "(calls (update_prices co cfg s) \<noteq> calls s \<longrightarrow>
      truthy (NOTION_PRICES_DB_ID cfg)
      \<and> (\<exists>lastPriceUpdateTime.
            read_timestamp (HF_MONITOR_STATE s) (price_time co) ''lastPriceUpdateTime''
              = Returns lastPriceUpdateTime
            \<and> price_update_due lastPriceUpdateTime (price_time co)))
   \<and> price_update_due None t'
   \<and> price_update_due (Some []) t'
   \<and> (price_update_due (Some (Number_toString t)) t' \<longleftrightarrow> PRICE_UPDATE_INTERVAL_MS < t' - t)
   \<and> (read_timestamp (HF_MONITOR_STATE s) (price_time co) ''lastPriceUpdateTime''
         = Returns lastPriceUpdateTime
       \<and> \<not> price_update_due lastPriceUpdateTime (price_time co) \<longrightarrow>
       update_prices co cfg s = s)
   \<and> (HF_MONITOR_STATE (update_prices co cfg s) = HF_MONITOR_STATE s
       \<or> (\<exists>store rows prices existingRows.
             HF_MONITOR_STATE s = Some store
             \<and> truthy (NOTION_PRICES_DB_ID cfg) \<and> truthy (NOTION_API_TOKEN cfg)
             \<and> \<not> put_rejects store ''lastPriceUpdateTime''
             \<and> symbols_query co = Returns rows
             \<and> List.map_filter row_symbol rows \<noteq> []
             \<and> getPrices_result co
                  (map (\<lambda>symbol. if symbol = ''ADA'' then ''Ada'' else symbol)
                     (List.map_filter row_symbol rows)) = Returns prices
             \<and> rows_query co = Returns existingRows
             \<and> HF_MONITOR_STATE (update_prices co cfg s) =
                 Some (store\<lparr>entries := (entries store)(''lastPriceUpdateTime'' \<mapsto>
                         (Number_toString (price_time co), None))\<rparr>)))
   \<and> (truthy (NOTION_PRICES_DB_ID cfg) \<and> truthy (NOTION_API_TOKEN cfg)
       \<and> HF_MONITOR_STATE s = Some store0
       \<and> \<not> put_rejects store0 ''lastPriceUpdateTime''
       \<and> kv_get store0 (price_time co) ''lastPriceUpdateTime'' = Returns lastPriceUpdateTime
       \<and> price_update_due lastPriceUpdateTime (price_time co)
       \<and> symbols_query co = Returns rows0
       \<and> List.map_filter row_symbol rows0 \<noteq> []
       \<and> getPrices_result co
            (map (\<lambda>symbol. if symbol = ''ADA'' then ''Ada'' else symbol)
               (List.map_filter row_symbol rows0)) = Returns prices0
       \<and> rows_query co = Returns existingRows0 \<longrightarrow>
       HF_MONITOR_STATE (update_prices co cfg s) =
         Some (store0\<lparr>entries := (entries store0)(''lastPriceUpdateTime'' \<mapsto>
                 (Number_toString (price_time co), None))\<rparr>))
   \<and> (symbols_query co = Returns rows1 \<and> List.map_filter row_symbol rows1 = [] \<longrightarrow>
       HF_MONITOR_STATE (update_prices co cfg s) = HF_MONITOR_STATE s)
   \<and> (symbols_query co = Throws \<or> rows_query co = Throws
        \<or> (\<exists>rows. symbols_query co = Returns rows
              \<and> getPrices_result co
                   (map (\<lambda>symbol. if symbol = ''ADA'' then ''Ada'' else symbol)
                      (List.map_filter row_symbol rows)) = Throws) \<longrightarrow>
       HF_MONITOR_STATE (update_prices co cfg s) = HF_MONITOR_STATE s)
   \<and> (createEnv_result co = Returns cfg \<and> fetchLoansSnapshot_result co = Returns loans \<longrightarrow>
       scheduled co s0 =
         update_prices co cfg
           (snd (process_loans co cfg 0 loans
                   ((s0\<lparr>calls := calls s0 @ [LoansQuery]\<rparr>)\<lparr>hf_results := [], alertsSent := []\<rparr>))))"
proof -
  have c8: "symbols_query co = Returns rows1 \<and> List.map_filter row_symbol rows1 = [] \<longrightarrow>
       HF_MONITOR_STATE (update_prices co cfg s) = HF_MONITOR_STATE s"
    using update_prices_empty_list [of co rows1 cfg s] by blast
  have c9: "symbols_query co = Throws \<or> rows_query co = Throws
        \<or> (\<exists>rows. symbols_query co = Returns rows
              \<and> getPrices_result co
                   (map (\<lambda>symbol. if symbol = ''ADA'' then ''Ada'' else symbol)
                      (List.map_filter row_symbol rows)) = Throws) \<longrightarrow>
       HF_MONITOR_STATE (update_prices co cfg s) = HF_MONITOR_STATE s"
    using update_prices_thrown [of co cfg s] by blast
  have c10: "createEnv_result co = Returns cfg \<and> fetchLoansSnapshot_result co = Returns loans \<longrightarrow>
       scheduled co s0 =
         update_prices co cfg
           (snd (process_loans co cfg 0 loans
                   ((s0\<lparr>calls := calls s0 @ [LoansQuery]\<rparr>)\<lparr>hf_results := [], alertsSent := []\<rparr>)))"
    using scheduled_runs_update_prices [of co cfg loans s0] by blast
  have c1: "calls (update_prices co cfg s) \<noteq> calls s \<longrightarrow>
      truthy (NOTION_PRICES_DB_ID cfg)
      \<and> (\<exists>lastPriceUpdateTime.
            read_timestamp (HF_MONITOR_STATE s) (price_time co) ''lastPriceUpdateTime''
              = Returns lastPriceUpdateTime
            \<and> price_update_due lastPriceUpdateTime (price_time co))"
    using update_prices_runs_only_when_due [of co cfg s] by blast
  have c2: "price_update_due None t'" and c3: "price_update_due (Some []) t'"
    by (simp_all add: price_update_due_def)
  have c4: "price_update_due (Some (Number_toString t)) t' \<longleftrightarrow> PRICE_UPDATE_INTERVAL_MS < t' - t"
    by (rule price_update_due_written)
  have c5: "read_timestamp (HF_MONITOR_STATE s) (price_time co) ''lastPriceUpdateTime''
         = Returns lastPriceUpdateTime
       \<and> \<not> price_update_due lastPriceUpdateTime (price_time co) \<longrightarrow>
       update_prices co cfg s = s"
    using update_prices_skipped [of s co lastPriceUpdateTime cfg] by blast
  note c6 = update_prices_timestamp_only_if [of co cfg s]
  have c7: "truthy (NOTION_PRICES_DB_ID cfg) \<and> truthy (NOTION_API_TOKEN cfg)
       \<and> HF_MONITOR_STATE s = Some store0
       \<and> \<not> put_rejects store0 ''lastPriceUpdateTime''
       \<and> kv_get store0 (price_time co) ''lastPriceUpdateTime'' = Returns lastPriceUpdateTime
       \<and> price_update_due lastPriceUpdateTime (price_time co)
       \<and> symbols_query co = Returns rows0
       \<and> List.map_filter row_symbol rows0 \<noteq> []
       \<and> getPrices_result co
            (map (\<lambda>symbol. if symbol = ''ADA'' then ''Ada'' else symbol)
               (List.map_filter row_symbol rows0)) = Returns prices0
       \<and> rows_query co = Returns existingRows0 \<longrightarrow>
       HF_MONITOR_STATE (update_prices co cfg s) =
         Some (store0\<lparr>entries := (entries store0)(''lastPriceUpdateTime'' \<mapsto>
                 (Number_toString (price_time co), None))\<rparr>)"
    using update_prices_timestamp_if [of cfg s store0 co lastPriceUpdateTime rows0 prices0
        existingRows0]
    by blast
  show ?thesis
    by (intro conjI c1 c2 c3 c4 c5 c6 c7 c8 c9 c10)
qed

theorem price_mirror_throttle_witness:
  "read_timestamp (HF_MONITOR_STATE (start_state (Some (store_with ''lastPriceUpdateTime'' ''1000''))))
      (price_time (sample_collaborators 3601000 (Returns []))) ''lastPriceUpdateTime''
     = Returns (Some ''1000'')
   \<and> \<not> price_update_due (Some ''1000'') (price_time (sample_collaborators 3601000 (Returns [])))
   \<and> update_prices (sample_collaborators 3601000 (Returns [])) sample_config
        (start_state (Some (store_with ''lastPriceUpdateTime'' ''1000'')))
       = start_state (Some (store_with ''lastPriceUpdateTime'' ''1000''))
   \<and> price_update_due (Some ''1000'') (price_time (sample_collaborators 3601001 (Returns [])))
   \<and> HF_MONITOR_STATE (update_prices (sample_collaborators 3601001 (Returns [])) sample_config
        (start_state (Some (store_with ''lastPriceUpdateTime'' ''1000''))))
       = Some (store_with ''lastPriceUpdateTime'' ''3601001'')
   \<and> symbols_query ((sample_collaborators 3601001 (Returns []))\<lparr>symbols_query := Returns []\<rparr>)
       = Returns []
   \<and> HF_MONITOR_STATE
        (update_prices ((sample_collaborators 3601001 (Returns []))\<lparr>symbols_query := Returns []\<rparr>)
           sample_config (start_state (Some (store_with ''lastPriceUpdateTime'' ''1000''))))
       = Some (store_with ''lastPriceUpdateTime'' ''1000'')"
proof -
  let ?s = "start_state (Some (store_with ''lastPriceUpdateTime'' ''1000''))"
  let ?early = "sample_collaborators 3601000 (Returns [])"
  let ?late = "sample_collaborators 3601001 (Returns [])"
  have read: "read_timestamp (HF_MONITOR_STATE ?s) (price_time ?early) ''lastPriceUpdateTime''
     = Returns (Some ''1000'')"
    by (simp add: read_timestamp_def kv_get_def sample_cycle_defs)
  have not_due: "\<not> price_update_due (Some ''1000'') (price_time ?early)"
    by (simp add: price_update_due_def PRICE_UPDATE_INTERVAL_MS_def js_gt_def millis_def
        sample_collaborators_def text_defs)
  from price_mirror_throttle [where co = ?early and cfg = sample_config and s = ?s
      and lastPriceUpdateTime = "Some ''1000''"] read not_due
  have skipped: "update_prices ?early sample_config ?s = ?s"
    by blast
  have pre: "truthy (NOTION_PRICES_DB_ID sample_config)" "truthy (NOTION_API_TOKEN sample_config)"
    "HF_MONITOR_STATE ?s = Some (store_with ''lastPriceUpdateTime'' ''1000'')"
    "\<not> put_rejects (store_with ''lastPriceUpdateTime'' ''1000'') ''lastPriceUpdateTime''"
    "kv_get (store_with ''lastPriceUpdateTime'' ''1000'') (price_time ?late) ''lastPriceUpdateTime''
       = Returns (Some ''1000'')"
    "symbols_query ?late = Returns [\<lparr>page_id = ''page1'', plain_text = Some ''ADA''\<rparr>]"
    "List.map_filter row_symbol [\<lparr>page_id = ''page1'', plain_text = Some ''ADA''\<rparr>] \<noteq> []"
    "getPrices_result ?late
       (map (\<lambda>symbol. if symbol = ''ADA'' then ''Ada'' else symbol)
          (List.map_filter row_symbol [\<lparr>page_id = ''page1'', plain_text = Some ''ADA''\<rparr>]))
       = Returns [''Ada'']"
    "rows_query ?late = Returns [\<lparr>page_id = ''page1'', plain_text = Some ''ADA''\<rparr>]"
    by (simp_all add: sample_cycle_defs truthy_def kv_get_def row_symbol_def
        List.map_filter_simps)
  have due: "price_update_due (Some ''1000'') (price_time ?late)"
    by (simp add: price_update_due_def PRICE_UPDATE_INTERVAL_MS_def js_gt_def millis_def
        sample_collaborators_def text_defs)
  from price_mirror_throttle [where co = ?late and cfg = sample_config and s = ?s
      and lastPriceUpdateTime = "Some ''1000''"
      and ?store0.0 = "store_with ''lastPriceUpdateTime'' ''1000''"
      and ?rows0.0 = "[\<lparr>page_id = ''page1'', plain_text = Some ''ADA''\<rparr>]"
      and ?prices0.0 = "[''Ada'']"
      and ?existingRows0.0 = "[\<lparr>page_id = ''page1'', plain_text = Some ''ADA''\<rparr>]"]
    pre due
  have "HF_MONITOR_STATE (update_prices ?late sample_config ?s) =
         Some ((store_with ''lastPriceUpdateTime'' ''1000'')
                 \<lparr>entries := (entries (store_with ''lastPriceUpdateTime'' ''1000''))
                    (''lastPriceUpdateTime'' \<mapsto> (Number_toString (price_time ?late), None))\<rparr>)"
    by blast
  moreover have "Number_toString 3601001 = ''3601001''"
    by (simp add: text_defs)
  ultimately have written: "HF_MONITOR_STATE (update_prices ?late sample_config ?s)
       = Some (store_with ''lastPriceUpdateTime'' ''3601001'')"
    by (simp add: store_with_def empty_store_def sample_collaborators_def)
  let ?none = "(sample_collaborators 3601001 (Returns []))\<lparr>symbols_query := Returns []\<rparr>"
  have empty: "symbols_query ?none = Returns []" "List.map_filter row_symbol [] = []"
    by (simp_all add: List.map_filter_simps)
  from price_mirror_throttle [where co = ?none and cfg = sample_config and s = ?s
      and ?rows1.0 = "[]"] empty
  have "HF_MONITOR_STATE (update_prices ?none sample_config ?s) = HF_MONITOR_STATE ?s"
    by blast
  then have unchanged: "HF_MONITOR_STATE (update_prices ?none sample_config ?s)
       = Some (store_with ''lastPriceUpdateTime'' ''1000'')"
    by (simp add: start_state_def)
  from read not_due skipped due written empty(1) unchanged show ?thesis by blast
qed

text \<open>
  Against claim C7 as stated: in a run at time 7200000 with \<open>lastPriceUpdateTime\<close>
  holding 1000, Notion refuses the write of the one asset's row, so
  \<open>updatePriceDatabase\<close> returns no update and one error, and the stored timestamp
  still becomes 7200000.
\<close>

theorem price_mirror_counterexample:
  "fst (updatePriceDatabase (sample_collaborators 7200000 (Returns [])) sample_config [''Ada'']
          (start_state None)) = Returns \<lparr>updated = 0, errors = [''Ada'']\<rparr>
   \<and> read_timestamp (Some (store_with ''lastPriceUpdateTime'' ''1000'')) 7200000
        ''lastPriceUpdateTime'' = Returns (Some ''1000'')
   \<and> calls (scheduled (sample_collaborators 7200000 (Returns []))
              (start_state (Some (store_with ''lastPriceUpdateTime'' ''1000''))))
       = [LoansQuery, NotionQuery, PricesQuery [''Ada''], NotionQuery, NotionWrite None ''Ada'']
   \<and> read_timestamp
        (HF_MONITOR_STATE (scheduled (sample_collaborators 7200000 (Returns []))
           (start_state (Some (store_with ''lastPriceUpdateTime'' ''1000'')))))
        7200000 ''lastPriceUpdateTime'' = Returns (Some ''7200000'')"
  by (simp add: cycle_defs sample_cycle_defs text_defs price_defs)

section \<open>Properties of the failure handler\<close>

lemma handle_failure_calls:
  "calls (handle_failure co s) =
     calls s @ (case read_timestamp (HF_MONITOR_STATE s) (error_time co) ''lastErrorAlertTime'' of
                  Throws \<Rightarrow> []
                | Returns lastErrorTime \<Rightarrow>
                    if error_alert_due lastErrorTime (error_time co)
                       \<and> createEnv_result co \<noteq> Throws
                    then [SendAlert Error None] else [])"
  by (auto simp: handle_failure_def handle_failure_try_def sendAlert_def Let_def
      split: outcome.splits option.splits)

lemma handle_failure_store:
  assumes "HF_MONITOR_STATE s = Some store"
    and "\<not> put_rejects store ''lastErrorAlertTime''"
    and "\<not> get_rejects store ''lastErrorAlertTime''"
    and "calls (handle_failure co s) \<noteq> calls s"
  shows "read_timestamp (HF_MONITOR_STATE (handle_failure co s)) now ''lastErrorAlertTime''
           = Returns (Some (Number_toString (error_time co)))"
  using assms
  by (auto simp: handle_failure_def handle_failure_try_def sendAlert_def Let_def
      read_timestamp_def kv_get_def kv_put_def
      split: outcome.splits option.splits if_splits)

lemma handle_failure_idle:
  "calls (handle_failure co s) = calls s \<Longrightarrow> handle_failure co s = s"
  by (auto simp: handle_failure_def handle_failure_try_def sendAlert_def Let_def
      split: outcome.splits option.splits if_splits)

lemma handle_failure_written:
  assumes "HF_MONITOR_STATE s = Some store"
    and "\<not> put_rejects store ''lastErrorAlertTime''"
    and "calls (handle_failure co s) \<noteq> calls s"
  shows "HF_MONITOR_STATE (handle_failure co s) =
           Some (store\<lparr>entries := (entries store)(''lastErrorAlertTime'' \<mapsto>
                   (Number_toString (error_time co), None))\<rparr>)"
  using assms
  by (auto simp: handle_failure_def handle_failure_try_def sendAlert_def Let_def kv_put_def
      split: outcome.splits option.splits if_splits)

subsection \<open>What the rest of a run leaves alone\<close>

lemma recordAlert_view:
  "recordAlert rt kv now loanId lvl symbol = Returns kv' \<Longrightarrow>
     map_option (\<lambda>store. (entries store ''lastErrorAlertTime'', get_rejects store, put_rejects store)) kv'
     = map_option (\<lambda>store. (entries store ''lastErrorAlertTime'', get_rejects store, put_rejects store)) kv"
  by (auto simp: recordAlert_def recordAlert_try_def kv_put_def alert_key_def
      split: option.splits outcome.splits if_splits)

lemma alert_branch_view:
  "error_throttle_view (snd (alert_branch co cfg i loan lvl s)) = error_throttle_view s"
  by (auto simp: alert_branch_def Let_def error_throttle_view_def error_alerts_def
      dest: recordAlert_view split: outcome.splits bool.splits)

lemma process_loan_view:
  "error_throttle_view (snd (process_loan co cfg i loan s)) = error_throttle_view s"
  by (simp add: process_loan_def Let_def alert_branch_view)
     (simp add: error_throttle_view_def error_alerts_def)

lemma process_loans_view:
  "error_throttle_view (snd (process_loans co cfg i loans s)) = error_throttle_view s"
  by (induction loans arbitrary: i s)
     (simp_all del: process_loans.simps(2) add: process_loans_step process_loan_view)

lemma push_price_view:
  "error_throttle_view (snd (push_price co existingRows acc symbol)) = error_throttle_view (snd acc)"
  by (cases acc) (simp add: push_price_def Let_def error_throttle_view_def error_alerts_def)

lemma foldl_push_price_view:
  "foldl (push_price co existingRows) acc prices = (results, s1) \<Longrightarrow>
     error_throttle_view s1 = error_throttle_view (snd acc)"
proof (induction prices arbitrary: acc)
  case Nil
  then show ?case by simp
next
  case (Cons symbol prices)
  then show ?case by (simp add: push_price_view)
qed

lemma getAssetSymbols_view:
  "getAssetSymbols co cfg s = (r, s1) \<Longrightarrow> error_throttle_view s1 = error_throttle_view s"
  by (auto simp: getAssetSymbols_def Let_def error_throttle_view_def error_alerts_def
      split: outcome.splits bool.splits)

lemma getPrices_view:
  "getPrices co symbols s = (r, s1) \<Longrightarrow> error_throttle_view s1 = error_throttle_view s"
  by (auto simp: getPrices_def error_throttle_view_def error_alerts_def split: if_splits)

lemma updatePriceDatabase_view:
  "updatePriceDatabase co cfg prices s = (r, s1) \<Longrightarrow> error_throttle_view s1 = error_throttle_view s"
  by (auto simp: updatePriceDatabase_def Let_def dest!: foldl_push_price_view
      split: outcome.splits bool.splits prod.splits)
     (simp_all add: error_throttle_view_def error_alerts_def)

lemma put_price_time_view:
  "HF_MONITOR_STATE s = Some store \<Longrightarrow>
   kv_put store now ''lastPriceUpdateTime'' text None = Returns store' \<Longrightarrow>
   error_throttle_view (s\<lparr>HF_MONITOR_STATE := Some store'\<rparr>) = error_throttle_view s"
  by (auto simp: kv_put_def error_throttle_view_def error_alerts_def split: if_splits)

lemma update_prices_try_view:
  "error_throttle_view (snd (update_prices_try co cfg s)) = error_throttle_view s"
  by (auto simp: update_prices_try_def Let_def
      dest!: getAssetSymbols_view getPrices_view updatePriceDatabase_view
      dest: put_price_time_view
      split: outcome.splits option.splits prod.splits if_splits)

lemma update_prices_view:
  "error_throttle_view (update_prices co cfg s) = error_throttle_view s"
  by (simp add: update_prices_def update_prices_try_view)

lemma scheduled_try_view:
  "error_throttle_view (snd (scheduled_try co s)) = error_throttle_view s"
proof -
  have start: "error_throttle_view (s\<lparr>calls := calls s @ [LoansQuery], hf_results := [], alertsSent := []\<rparr>)
                 = error_throttle_view s"
    "error_throttle_view (s\<lparr>calls := calls s @ [LoansQuery]\<rparr>) = error_throttle_view s"
    by (simp_all add: error_throttle_view_def error_alerts_def)
  show ?thesis
    using process_loans_normal
    by (auto simp: scheduled_try_def Let_def start update_prices_view
        split: outcome.splits prod.splits completion.splits
        dest: arg_cong [where f = snd])
       (metis process_loans_view snd_conv start(1))+
qed

subsection \<open>Successive runs\<close>

lemma view_store:
  assumes "error_throttle_view s' = error_throttle_view s" and "HF_MONITOR_STATE s = Some store"
  obtains store' where "HF_MONITOR_STATE s' = Some store'"
    and "entries store' ''lastErrorAlertTime'' = entries store ''lastErrorAlertTime''"
    and "get_rejects store' = get_rejects store" and "put_rejects store' = put_rejects store"
    and "error_alerts s' = error_alerts s"
  using assms by (auto simp: error_throttle_view_def)

lemma scheduled_cases:
  "scheduled co s = (if fst (scheduled_try co s) = Abrupt
                     then handle_failure co (snd (scheduled_try co s))
                     else snd (scheduled_try co s))"
  by (cases "scheduled_try co s"; cases "fst (scheduled_try co s)") (auto simp: scheduled_def)

lemma scheduled_error_step:
  assumes store: "HF_MONITOR_STATE s = Some store"
    and reads: "\<not> get_rejects store ''lastErrorAlertTime''"
    and writes: "\<not> put_rejects store ''lastErrorAlertTime''"
  shows "(error_alerts (scheduled co s) = error_alerts s
          \<and> error_throttle_view (scheduled co s) = error_throttle_view s)
       \<or> (error_alerts (scheduled co s) = Suc (error_alerts s)
          \<and> (\<exists>lastErrorTime.
                kv_get store (error_time co) ''lastErrorAlertTime'' = Returns lastErrorTime
                \<and> error_alert_due lastErrorTime (error_time co))
          \<and> (\<exists>store'. HF_MONITOR_STATE (scheduled co s) = Some store'
                \<and> entries store' ''lastErrorAlertTime''
                    = Some (Number_toString (error_time co), None)
                \<and> get_rejects store' = get_rejects store
                \<and> put_rejects store' = put_rejects store))"
proof -
  define s1 where "s1 = snd (scheduled_try co s)"
  have view1: "error_throttle_view s1 = error_throttle_view s"
    by (simp add: s1_def scheduled_try_view)
  from view_store [OF view1 store] obtain store1 where
    store1: "HF_MONITOR_STATE s1 = Some store1"
    and same: "entries store1 ''lastErrorAlertTime'' = entries store ''lastErrorAlertTime''"
      "get_rejects store1 = get_rejects store" "put_rejects store1 = put_rejects store"
    and count1: "error_alerts s1 = error_alerts s"
    by blast
  show ?thesis
  proof (cases "fst (scheduled_try co s) = Abrupt
                \<and> calls (handle_failure co s1) \<noteq> calls s1")
    case False
    then have "scheduled co s = s1"
      using handle_failure_idle [of co s1] by (auto simp: scheduled_cases s1_def)
    with view1 count1 show ?thesis by simp
  next
    case True
    then have run: "scheduled co s = handle_failure co s1"
      by (simp add: scheduled_cases s1_def)
    from True have changed: "calls (handle_failure co s1) \<noteq> calls s1" by simp
    from changed handle_failure_calls [of co s1] obtain lastErrorTime where
      read: "read_timestamp (HF_MONITOR_STATE s1) (error_time co) ''lastErrorAlertTime''
               = Returns lastErrorTime"
      and due: "error_alert_due lastErrorTime (error_time co)"
      and grown: "calls (handle_failure co s1) = calls s1 @ [SendAlert Error None]"
      by (cases "read_timestamp (HF_MONITOR_STATE s1) (error_time co) ''lastErrorAlertTime''")
         (auto split: if_splits)
    from read store1 same reads have read0:
      "kv_get store (error_time co) ''lastErrorAlertTime'' = Returns lastErrorTime"
      by (simp add: read_timestamp_def kv_get_def)
    from grown count1 run have count: "error_alerts (scheduled co s) = Suc (error_alerts s)"
      by (simp add: error_alerts_def)
    from writes same have "\<not> put_rejects store1 ''lastErrorAlertTime''" by simp
    from handle_failure_written [OF store1 this changed] run same
    have "\<exists>store'. HF_MONITOR_STATE (scheduled co s) = Some store'
                \<and> entries store' ''lastErrorAlertTime''
                    = Some (Number_toString (error_time co), None)
                \<and> get_rejects store' = get_rejects store
                \<and> put_rejects store' = put_rejects store"
      by simp
    with count read0 due show ?thesis by blast
  qed
qed

lemma error_alert_times_after:
  assumes "HF_MONITOR_STATE s = Some store"
    and "\<not> get_rejects store ''lastErrorAlertTime''"
    and "\<not> put_rejects store ''lastErrorAlertTime''"
    and "entries store ''lastErrorAlertTime'' = Some (Number_toString t0, None)"
  shows "sorted_wrt (\<lambda>a b. ERROR_ALERT_COOLDOWN_MS < b - a) (error_alert_times runs s)
       \<and> (\<forall>t\<in>set (error_alert_times runs s). ERROR_ALERT_COOLDOWN_MS < t - t0)"
  using assms
proof (induction runs arbitrary: s store t0)
  case Nil
  then show ?case by simp
next
  case (Cons co later)
  note step = scheduled_error_step [OF Cons.prems(1-3), of co]
  show ?case
  proof (cases "error_alerts (scheduled co s) = error_alerts s")
    case True
    with step have view: "error_throttle_view (scheduled co s) = error_throttle_view s"
      by auto
    from view_store [OF view Cons.prems(1)] obtain store' where
      "HF_MONITOR_STATE (scheduled co s) = Some store'"
      "entries store' ''lastErrorAlertTime'' = entries store ''lastErrorAlertTime''"
      "get_rejects store' = get_rejects store" "put_rejects store' = put_rejects store"
      by blast
    with Cons.prems Cons.IH [of "scheduled co s" store' t0] True show ?thesis
      by simp
  next
    case False
    with step obtain lastErrorTime store' where
      read: "kv_get store (error_time co) ''lastErrorAlertTime'' = Returns lastErrorTime"
      and due: "error_alert_due lastErrorTime (error_time co)"
      and after: "HF_MONITOR_STATE (scheduled co s) = Some store'"
        "entries store' ''lastErrorAlertTime'' = Some (Number_toString (error_time co), None)"
        "get_rejects store' = get_rejects store" "put_rejects store' = put_rejects store"
      by auto
    from read Cons.prems(2,4) have "lastErrorTime = Some (Number_toString t0)"
      by (simp add: kv_get_def)
    with due have first: "ERROR_ALERT_COOLDOWN_MS < error_time co - t0"
      by (simp add: error_alert_due_written)
    from Cons.IH [of "scheduled co s" store' "error_time co"] after Cons.prems(2,3)
    have rest: "sorted_wrt (\<lambda>a b. ERROR_ALERT_COOLDOWN_MS < b - a)
                  (error_alert_times later (scheduled co s))"
      "\<forall>t\<in>set (error_alert_times later (scheduled co s)).
          ERROR_ALERT_COOLDOWN_MS < t - error_time co"
      by simp_all
    have "0 < ERROR_ALERT_COOLDOWN_MS" by (simp add: ERROR_ALERT_COOLDOWN_MS_def)
    with first rest(2) have
      "\<forall>t\<in>set (error_alert_times later (scheduled co s)). ERROR_ALERT_COOLDOWN_MS < t - t0"
      by fastforce
    with False first rest show ?thesis by simp
  qed
qed

lemma error_alert_times_spaced:
  assumes "HF_MONITOR_STATE s = Some store"
    and "\<not> get_rejects store ''lastErrorAlertTime''"
    and "\<not> put_rejects store ''lastErrorAlertTime''"
  shows "sorted_wrt (\<lambda>a b. ERROR_ALERT_COOLDOWN_MS < b - a) (error_alert_times runs s)"
  using assms
proof (induction runs arbitrary: s store)
  case Nil
  then show ?case by simp
next
  case (Cons co later)
  note step = scheduled_error_step [OF Cons.prems(1-3), of co]
  show ?case
  proof (cases "error_alerts (scheduled co s) = error_alerts s")
    case True
    with step have view: "error_throttle_view (scheduled co s) = error_throttle_view s"
      by auto
    from view_store [OF view Cons.prems(1)] obtain store' where
      "HF_MONITOR_STATE (scheduled co s) = Some store'"
      "get_rejects store' = get_rejects store" "put_rejects store' = put_rejects store"
      by blast
    with Cons.prems Cons.IH [of "scheduled co s" store'] True show ?thesis
      by simp
  next
    case False
    with step obtain store' where
      after: "HF_MONITOR_STATE (scheduled co s) = Some store'"
        "entries store' ''lastErrorAlertTime'' = Some (Number_toString (error_time co), None)"
        "get_rejects store' = get_rejects store" "put_rejects store' = put_rejects store"
      by auto
    from error_alert_times_after [of "scheduled co s" store' "error_time co" later]
      after Cons.prems(2,3) False
    show ?thesis by simp
  qed
qed

text \<open>
  Claim C6, as amended. The failure handler attempts the error alert exactly when the
  read of \<open>lastErrorAlertTime\<close> succeeds, the value read is absent or empty or
  \<open>currentTime - parseInt(value)\<close> is strictly greater than twelve hours, and the
  configuration validates; in every other case it makes no call and leaves the state as
  it is. No store bound reads as an absent value. A timestamp the handler wrote at time
  \<open>t\<close> lets the alert through at time \<open>t'\<close> exactly when \<open>t' - t\<close> exceeds
  twelve hours. With a store bound whose write succeeds, a handler that attempted the
  alert leaves its time under the key. The body of a run attempts no error alert and
  leaves the entry under the key as it is, and a run of \<open>scheduled\<close> is its body,
  followed by the handler when the body fails. So with a store bound whose read and
  write of the key succeed, over every list of successive runs of \<open>scheduled\<close> any
  two error alerts attempted are more than twelve hours apart.
\<close>

theorem error_alert_throttle:
  "calls (handle_failure co s) =
     calls s @ (case read_timestamp (HF_MONITOR_STATE s) (error_time co) ''lastErrorAlertTime'' of
                  Throws \<Rightarrow> []
                | Returns lastErrorTime \<Rightarrow>
                    if error_alert_due lastErrorTime (error_time co)
                       \<and> createEnv_result co \<noteq> Throws
                    then [SendAlert Error None] else [])
   \<and> error_alert_due None t'
   \<and> error_alert_due (Some []) t'
   \<and> (error_alert_due (Some (Number_toString t)) t' \<longleftrightarrow> ERROR_ALERT_COOLDOWN_MS < t' - t)
   \<and> (HF_MONITOR_STATE s = Some store
        \<and> \<not> put_rejects store ''lastErrorAlertTime''
        \<and> \<not> get_rejects store ''lastErrorAlertTime''
        \<and> calls (handle_failure co s) \<noteq> calls s
        \<and> error_time co' - error_time co \<le> ERROR_ALERT_COOLDOWN_MS
      \<longrightarrow> calls (handle_failure co' (handle_failure co s)) = calls (handle_failure co s))
   \<and> (fst (scheduled_try co s) = Abrupt \<longrightarrow>
        scheduled co s = handle_failure co (snd (scheduled_try co s)))
   \<and> (fst (scheduled_try co s) \<noteq> Abrupt \<longrightarrow> scheduled co s = snd (scheduled_try co s))
   \<and> (calls (handle_failure co s) = calls s \<longrightarrow> handle_failure co s = s)
   \<and> (HF_MONITOR_STATE s = Some store
        \<and> \<not> put_rejects store ''lastErrorAlertTime''
        \<and> calls (handle_failure co s) \<noteq> calls s
      \<longrightarrow> HF_MONITOR_STATE (handle_failure co s) =
           Some (store\<lparr>entries := (entries store)(''lastErrorAlertTime'' \<mapsto>
                   (Number_toString (error_time co), None))\<rparr>))
   \<and> error_throttle_view (snd (scheduled_try co s)) = error_throttle_view s
   \<and> (HF_MONITOR_STATE s = Some store
        \<and> \<not> get_rejects store ''lastErrorAlertTime''
        \<and> \<not> put_rejects store ''lastErrorAlertTime''
      \<longrightarrow> sorted_wrt (\<lambda>a b. ERROR_ALERT_COOLDOWN_MS < b - a) (error_alert_times runs s))"
proof -
  have c1: "calls (handle_failure co s) =
     calls s @ (case read_timestamp (HF_MONITOR_STATE s) (error_time co) ''lastErrorAlertTime'' of
                  Throws \<Rightarrow> []
                | Returns lastErrorTime \<Rightarrow>
                    if error_alert_due lastErrorTime (error_time co)
                       \<and> createEnv_result co \<noteq> Throws
                    then [SendAlert Error None] else [])"
    by (rule handle_failure_calls)
  have c2: "error_alert_due None t'" and c3: "error_alert_due (Some []) t'"
    by (simp_all add: error_alert_due_def)
  have c4: "error_alert_due (Some (Number_toString t)) t' \<longleftrightarrow> ERROR_ALERT_COOLDOWN_MS < t' - t"
    by (rule error_alert_due_written)
  have c5: "HF_MONITOR_STATE s = Some store
        \<and> \<not> put_rejects store ''lastErrorAlertTime''
        \<and> \<not> get_rejects store ''lastErrorAlertTime''
        \<and> calls (handle_failure co s) \<noteq> calls s
        \<and> error_time co' - error_time co \<le> ERROR_ALERT_COOLDOWN_MS
      \<longrightarrow> calls (handle_failure co' (handle_failure co s)) = calls (handle_failure co s)"
  proof (intro impI, elim conjE)
    assume pre: "HF_MONITOR_STATE s = Some store"
      "\<not> put_rejects store ''lastErrorAlertTime''"
      "\<not> get_rejects store ''lastErrorAlertTime''"
      "calls (handle_failure co s) \<noteq> calls s"
      and near: "error_time co' - error_time co \<le> ERROR_ALERT_COOLDOWN_MS"
    from handle_failure_store [OF pre, of "error_time co'"]
    have "read_timestamp (HF_MONITOR_STATE (handle_failure co s)) (error_time co')
            ''lastErrorAlertTime'' = Returns (Some (Number_toString (error_time co)))" .
    with near show "calls (handle_failure co' (handle_failure co s)) = calls (handle_failure co s)"
      by (simp add: handle_failure_calls [of co'] error_alert_due_written)
  qed
  have c6: "fst (scheduled_try co s) = Abrupt \<longrightarrow>
        scheduled co s = handle_failure co (snd (scheduled_try co s))"
    by (simp add: scheduled_cases)
  have c7: "fst (scheduled_try co s) \<noteq> Abrupt \<longrightarrow> scheduled co s = snd (scheduled_try co s)"
    by (simp add: scheduled_cases)
  have c8: "calls (handle_failure co s) = calls s \<longrightarrow> handle_failure co s = s"
    using handle_failure_idle [of co s] by blast
  have c9: "HF_MONITOR_STATE s = Some store
        \<and> \<not> put_rejects store ''lastErrorAlertTime''
        \<and> calls (handle_failure co s) \<noteq> calls s
      \<longrightarrow> HF_MONITOR_STATE (handle_failure co s) =
           Some (store\<lparr>entries := (entries store)(''lastErrorAlertTime'' \<mapsto>
                   (Number_toString (error_time co), None))\<rparr>)"
    using handle_failure_written [of s store co] by blast
  have c10: "error_throttle_view (snd (scheduled_try co s)) = error_throttle_view s"
    by (rule scheduled_try_view)
  have c11: "HF_MONITOR_STATE s = Some store
        \<and> \<not> get_rejects store ''lastErrorAlertTime''
        \<and> \<not> put_rejects store ''lastErrorAlertTime''
      \<longrightarrow> sorted_wrt (\<lambda>a b. ERROR_ALERT_COOLDOWN_MS < b - a) (error_alert_times runs s)"
    using error_alert_times_spaced [of s store runs] by blast
  show ?thesis
    by (intro conjI c1 c2 c3 c4 c5 c6 c7 c8 c9 c10 c11)
qed

theorem error_alert_throttle_witness:
  "HF_MONITOR_STATE (start_state (Some empty_store)) = Some empty_store
   \<and> \<not> put_rejects empty_store ''lastErrorAlertTime''
   \<and> \<not> get_rejects empty_store ''lastErrorAlertTime''
   \<and> calls (handle_failure (sample_collaborators 1000 Throws) (start_state (Some empty_store)))
       = [SendAlert Error None]
   \<and> error_time (sample_collaborators 43201000 Throws) - error_time (sample_collaborators 1000 Throws)
       \<le> ERROR_ALERT_COOLDOWN_MS
   \<and> calls (handle_failure (sample_collaborators 43201000 Throws)
              (handle_failure (sample_collaborators 1000 Throws) (start_state (Some empty_store))))
       = [SendAlert Error None]
   \<and> error_alert_times
        [sample_collaborators 1000 Throws, sample_collaborators 1500 Throws,
         sample_collaborators 43201000 Throws, sample_collaborators 43201001 Throws]
        (start_state (Some empty_store)) = [1000, 43201001]
   \<and> sorted_wrt (\<lambda>a b. ERROR_ALERT_COOLDOWN_MS < b - a)
        (error_alert_times
          [sample_collaborators 1000 Throws, sample_collaborators 1500 Throws,
           sample_collaborators 43201000 Throws, sample_collaborators 43201001 Throws]
          (start_state (Some empty_store)))"
proof -
  let ?runs = "[sample_collaborators 1000 Throws, sample_collaborators 1500 Throws,
         sample_collaborators 43201000 Throws, sample_collaborators 43201001 Throws]"
  have pre:
    "HF_MONITOR_STATE (start_state (Some empty_store)) = Some empty_store"
    "\<not> put_rejects empty_store ''lastErrorAlertTime''"
    "\<not> get_rejects empty_store ''lastErrorAlertTime''"
    by (simp_all add: start_state_def empty_store_def)
  have first:
    "calls (handle_failure (sample_collaborators 1000 Throws) (start_state (Some empty_store)))
       = [SendAlert Error None]"
    by (simp add: cycle_defs sample_cycle_defs)
  have changed:
    "calls (handle_failure (sample_collaborators 1000 Throws) (start_state (Some empty_store)))
       \<noteq> calls (start_state (Some empty_store))"
    by (simp add: first) (simp add: start_state_def)
  have near:
    "error_time (sample_collaborators 43201000 Throws) - error_time (sample_collaborators 1000 Throws)
       \<le> ERROR_ALERT_COOLDOWN_MS"
    by (simp add: sample_collaborators_def ERROR_ALERT_COOLDOWN_MS_def)
  note inst = error_alert_throttle [of "sample_collaborators 1000 Throws"
      "start_state (Some empty_store)" 0 0 empty_store "sample_collaborators 43201000 Throws" ?runs]
  from inst pre changed near
  have second: "calls (handle_failure (sample_collaborators 43201000 Throws)
              (handle_failure (sample_collaborators 1000 Throws) (start_state (Some empty_store))))
       = calls (handle_failure (sample_collaborators 1000 Throws) (start_state (Some empty_store)))"
    by blast
  from inst pre
  have spaced: "sorted_wrt (\<lambda>a b. ERROR_ALERT_COOLDOWN_MS < b - a)
        (error_alert_times ?runs (start_state (Some empty_store)))"
    by blast
  have times: "error_alert_times ?runs (start_state (Some empty_store)) = [1000, 43201001]"
    by (simp add: error_alerts_def scheduled_def scheduled_try_def handle_failure_def
        handle_failure_try_def read_timestamp_def error_alert_due_def sendAlert_def kv_get_def
        kv_put_def ERROR_ALERT_COOLDOWN_MS_def js_gt_def millis_def sample_cycle_defs
        parseInt_Number_toString Number_toString_nonempty)
  from pre first near second spaced times show ?thesis by simp
qed

text \<open>
  Against claim C6 as stated: with \<open>lastErrorAlertTime\<close> holding 1000, a run failing
  at time 43201000, when exactly twelve hours have elapsed, attempts no error alert, so
  elapsed at least the cooldown does not send; and with no store bound, two runs failing
  one millisecond apart both attempt the error alert.
\<close>

theorem error_alert_counterexample:
  "ERROR_ALERT_COOLDOWN_MS \<le> 43201000 - 1000
   \<and> read_timestamp (Some (store_with ''lastErrorAlertTime'' ''1000'')) 43201000 ''lastErrorAlertTime''
       = Returns (Some ''1000'')
   \<and> parseInt ''1000'' = millis 1000
   \<and> calls (scheduled (sample_collaborators 43201000 Throws)
              (start_state (Some (store_with ''lastErrorAlertTime'' ''1000'')))) = [LoansQuery]
   \<and> 5001 - 5000 < ERROR_ALERT_COOLDOWN_MS
   \<and> calls (scheduled (sample_collaborators 5001 Throws)
              (scheduled (sample_collaborators 5000 Throws) (start_state None)))
       = [LoansQuery, SendAlert Error None, LoansQuery, SendAlert Error None]"
  by (simp add: cycle_defs sample_cycle_defs text_defs)

end
